theory Spec2Isabelle
  imports Main "HOL-Library.Word"
begin

section \<open>Data model of the synthetic pipeline (synthetic.cc)\<close>

text \<open>
  Modelled from the spec: the enumeration \<^verbatim>\<open>Stream\<close> is declared outside the sources
  at hand. The eight named streams are the "fixed set" of the specification, the ones
  \<^verbatim>\<open>InitProcessors\<close> registers; \<open>LAST\<close> is the end marker of the enumeration and
  stands for every value no processor registers.
\<close>

datatype Stream =
  LEFT | RIGHT | LEFT_RECTIFIED | RIGHT_RECTIFIED
  | DISPARITY | DISPARITY_NORMALIZED | POINTS | DEPTH | LAST

text \<open>
  Modelled from the spec: the enumerations \<^verbatim>\<open>Mode\<close>, \<^verbatim>\<open>CalibrationModel\<close> and
  \<^verbatim>\<open>Format\<close> are declared outside the sources; their values are the ones the code
  names. \<open>MODE_LAST\<close> is the code's name for the mode the specification calls NONE, and
  \<open>UNKNOW\<close> stands for any calibration model that is neither of the two named.
\<close>

datatype Mode = MODE_NATIVE | MODE_SYNTHETIC | MODE_LAST

datatype CalibrationModel = PINHOLE | KANNALA_BRANDT | UNKNOW

datatype Format = YUYV | BGR888 | GRAY

text \<open>
  A \<^verbatim>\<open>cv::Mat\<close> is carried as its element sequence; \<open>[]\<close> is the empty matrix
  \<^verbatim>\<open>cv::Mat()\<close>.
\<close>

type_synonym Mat = "nat list"

text \<open>
  Modelled from the spec: the structures \<^verbatim>\<open>ImgData\<close> and \<^verbatim>\<open>device::Frame\<close> are
  declared outside the sources. The image metadata is given in
  doc/zh-Hans/spec_image_data.md: frame id (2 bytes), timestamp (4 bytes), exposure
  time (2 bytes).
\<close>

record ImgData =
  img_frame_id :: "16 word"
  img_timestamp :: "32 word"
  img_exposure_time :: "16 word"

record Frame =
  width :: nat
  height :: nat
  format :: Format
  pixels :: "nat list"

text \<open>
  \<^verbatim>\<open>api::StreamData\<close>, in the field order of the aggregate initialisers
  \<^verbatim>\<open>{data.img, frame2mat(data.frame), data.frame, data.frame_id}\<close>: \<open>img\<close> is the
  pointer to the image metadata, \<open>frame\<close> the matrix, \<open>frame_raw\<close> the device frame.
\<close>

record StreamData =
  img :: "ImgData option"
  frame :: Mat
  frame_raw :: "Frame option"
  frame_id :: "16 word"

text \<open>The value of \<^verbatim>\<open>return {};\<close> in a function returning \<^verbatim>\<open>api::StreamData\<close>.\<close>

definition StreamData_empty :: StreamData where
  "StreamData_empty = \<lparr>img = None, frame = [], frame_raw = None, frame_id = 0\<rparr>"

text \<open>
  \<^verbatim>\<open>ObjMat\<close> and \<^verbatim>\<open>ObjMat2\<close>, in the field order of \<^verbatim>\<open>data_obj\<close>
  (\<^verbatim>\<open>ObjMat{data.frame, data.frame_id, data.img}\<close>). The members \<^verbatim>\<open>value\<close>,
  \<^verbatim>\<open>id\<close> and \<^verbatim>\<open>data\<close> carry the prefix \<open>m\<close> here.
\<close>

record ObjMat =
  mvalue :: Mat
  mid :: "16 word"
  mdata :: "ImgData option"

record ObjMat2 =
  first :: Mat
  first_id :: "16 word"
  first_data :: "ImgData option"
  second :: Mat
  second_id :: "16 word"
  second_data :: "ImgData option"

datatype Object = Obj_Mat ObjMat | Obj_Mat2 ObjMat2

text \<open>\<^verbatim>\<open>Object::Cast<T>\<close>: a null pointer when the object is of the other kind.\<close>

fun Cast_ObjMat :: "Object \<Rightarrow> ObjMat option" where
  "Cast_ObjMat (Obj_Mat m) = Some m"
| "Cast_ObjMat (Obj_Mat2 m) = None"

fun Cast_ObjMat2 :: "Object \<Rightarrow> ObjMat2 option" where
  "Cast_ObjMat2 (Obj_Mat2 m) = Some m"
| "Cast_ObjMat2 (Obj_Mat m) = None"

definition obj_data_first :: "ObjMat2 \<Rightarrow> StreamData" where
  "obj_data_first obj =
     \<lparr>img = first_data obj, frame = first obj, frame_raw = None, frame_id = first_id obj\<rparr>"

definition obj_data_second :: "ObjMat2 \<Rightarrow> StreamData" where
  "obj_data_second obj =
     \<lparr>img = second_data obj, frame = second obj, frame_raw = None, frame_id = second_id obj\<rparr>"

definition obj_data :: "ObjMat \<Rightarrow> StreamData" where
  "obj_data obj = \<lparr>img = mdata obj, frame = mvalue obj, frame_raw = None, frame_id = mid obj\<rparr>"

definition data_obj :: "StreamData \<Rightarrow> ObjMat" where
  "data_obj d = \<lparr>mvalue = frame d, mid = frame_id d, mdata = img d\<rparr>"

definition data_obj2 :: "StreamData \<Rightarrow> StreamData \<Rightarrow> ObjMat2" where
  "data_obj2 a b =
     \<lparr>first = frame a, first_id = frame_id a, first_data = img a,
      second = frame b, second_id = frame_id b, second_data = img b\<rparr>"

text \<open>
  A stream callback is a \<^verbatim>\<open>std::function\<close>; it is carried as an identifier, and
  \<open>None\<close> is \<^verbatim>\<open>nullptr\<close>.
\<close>

type_synonym stream_callback_t = "nat option"

record stream_control_t =
  stream :: Stream
  support_mode :: Mode
  enabled_mode :: Mode
  stream_callback :: stream_callback_t

text \<open>
  The value of \<^verbatim>\<open>return {};\<close> in \<^verbatim>\<open>getControlDateWithStream\<close>: every member
  zero-initialised (the first enumerator of each enumeration, a null callback).
\<close>

definition stream_control_default :: stream_control_t where
  "stream_control_default =
     \<lparr>stream = LEFT, support_mode = MODE_NATIVE, enabled_mode = MODE_NATIVE,
      stream_callback = None\<rparr>"

text \<open>
  Members are written without the trailing underscore of the code
  (\<^verbatim>\<open>target_streams_\<close>, \<^verbatim>\<open>enabled_mode_\<close>, \<^verbatim>\<open>processors_\<close> and so on).
\<close>

text \<open>
  Modelled from the spec: the class \<^verbatim>\<open>Processor\<close> (processor.h) is not among the
  sources. A stage holds its list of target-stream descriptors, its activation flag
  (clear until \<^verbatim>\<open>Activate\<close> is called) and its most recent output
  (\<open>None\<close> until the stage has produced once).
\<close>

record Processor =
  target_streams :: "stream_control_t list"
  activated :: bool
  last_output :: "Object option"

text \<open>
  Modelled from the spec: the methods of \<^verbatim>\<open>Processor\<close> the pipeline calls.
  \<^verbatim>\<open>getStreamsSum\<close> is the number of registered target streams,
  \<^verbatim>\<open>addTargetStreams\<close> registers one more, \<^verbatim>\<open>Activate\<close> and \<^verbatim>\<open>Deactivate\<close>
  start and stop the worker (here: set and clear the flag \<^verbatim>\<open>IsActivated\<close> reads),
  and \<^verbatim>\<open>GetOutput\<close> is the stage's most recent output.
\<close>

definition getTargetStreams :: "Processor \<Rightarrow> stream_control_t list" where
  "getTargetStreams P = target_streams P"

definition getStreamsSum :: "Processor \<Rightarrow> nat" where
  "getStreamsSum P = length (target_streams P)"

definition addTargetStreams :: "stream_control_t \<Rightarrow> Processor \<Rightarrow> Processor" where
  "addTargetStreams c P = P\<lparr>target_streams := target_streams P @ [c]\<rparr>"

definition IsActivated :: "Processor \<Rightarrow> bool" where
  "IsActivated P = activated P"

definition Activate :: "Processor \<Rightarrow> Processor" where
  "Activate P = P\<lparr>activated := True\<rparr>"

definition Deactivate :: "Processor \<Rightarrow> Processor" where
  "Deactivate P = P\<lparr>activated := False\<rparr>"

definition GetOutput :: "Processor \<Rightarrow> Object option" where
  "GetOutput P = last_output P"

text \<open>
  The six stage objects \<^verbatim>\<open>InitProcessors\<close> creates, named as its local variables.
  A value of this type is a \<^verbatim>\<open>shared_ptr<Processor>\<close> to one of them; the objects
  live in the store \<open>heap\<close> of the pipeline state.
\<close>

datatype proc_ref =
  root_processor | rectify_processor | disparity_processor
  | disparitynormalized_processor | points_processor | depth_processor

text \<open>
  The optional plugin: one handler per stage, each taking the input and the output
  object and returning whether it produced the output, with the output it wrote.
\<close>

record Plugin =
  plugin_OnRectifyProcess :: "Object \<Rightarrow> Object \<Rightarrow> bool \<times> Object"
  plugin_OnDisparityProcess :: "Object \<Rightarrow> Object \<Rightarrow> bool \<times> Object"
  plugin_OnDisparityNormalizedProcess :: "Object \<Rightarrow> Object \<Rightarrow> bool \<times> Object"
  plugin_OnPointsProcess :: "Object \<Rightarrow> Object \<Rightarrow> bool \<times> Object"
  plugin_OnDepthProcess :: "Object \<Rightarrow> Object \<Rightarrow> bool \<times> Object"

text \<open>
  The device collaborator, as far as the pipeline reads it: which streams it produces,
  and its latest data per stream after \<^verbatim>\<open>data2api\<close> (the pixel conversion
  \<^verbatim>\<open>frame2mat\<close> is OpenCV's).
\<close>

record Device =
  dev_Supports :: "Stream \<Rightarrow> bool"
  dev_GetStreamData :: "Stream \<Rightarrow> StreamData"

text \<open>
  The state of a \<^verbatim>\<open>Synthetic\<close> object together with the function-scope statics of
  its methods: \<open>static_output\<close> is \<^verbatim>\<open>static std::shared_ptr<ObjMat2> output\<close> of
  \<^verbatim>\<open>GetStreamData\<close>; \<open>left_data\<close>, \<open>right_data\<close>, \<open>left_rect_data\<close> and
  \<open>right_rect_data\<close> are the statics of \<^verbatim>\<open>ProcessNativeStream\<close>.
\<close>

record Synthetic =
  device :: Device
  plugin :: "Plugin option"
  calib_model :: CalibrationModel
  calib_default_tag :: bool
  stream_data_listener :: "nat option"
  processors :: "proc_ref list"
  heap :: "proc_ref \<Rightarrow> Processor"
  static_output :: "ObjMat2 option"
  left_data :: StreamData
  right_data :: StreamData
  left_rect_data :: StreamData
  right_rect_data :: StreamData

text \<open>
  Flowing off the end of \<^verbatim>\<open>getProcessorWithStream\<close> (a function returning a
  \<^verbatim>\<open>shared_ptr\<close>) after the error log: the call yields no value.
\<close>

datatype error = NoSuitedProcessor Stream

section \<open>Stream registry lookups\<close>

fun find_control :: "(proc_ref \<Rightarrow> Processor) \<Rightarrow> proc_ref list \<Rightarrow> Stream
    \<Rightarrow> stream_control_t option" where
  "find_control h [] s = None"
| "find_control h (it # its) s =
     (case find (\<lambda>it_s. stream it_s = s) (getTargetStreams (h it)) of
        Some it_s \<Rightarrow> Some it_s
      | None \<Rightarrow> find_control h its s)"

definition getControlDateWithStream :: "Synthetic \<Rightarrow> Stream \<Rightarrow> stream_control_t" where
  "getControlDateWithStream S s =
     (case find_control (heap S) (processors S) s of
        Some it_s \<Rightarrow> it_s
      | None \<Rightarrow> stream_control_default)"

fun find_processor_with :: "(proc_ref \<Rightarrow> Processor) \<Rightarrow> proc_ref list \<Rightarrow> Stream
    \<Rightarrow> proc_ref option" where
  "find_processor_with h [] s = None"
| "find_processor_with h (it # its) s =
     (case find (\<lambda>it_s. stream it_s = s) (getTargetStreams (h it)) of
        Some it_s \<Rightarrow> Some it
      | None \<Rightarrow> find_processor_with h its s)"

definition getProcessorWithStream :: "Synthetic \<Rightarrow> Stream \<Rightarrow> error + proc_ref" where
  "getProcessorWithStream S s =
     (case find_processor_with (heap S) (processors S) s of
        Some it \<Rightarrow> Inr it
      | None \<Rightarrow> Inl (NoSuitedProcessor s))"

text \<open>
  The inner loop of \<^verbatim>\<open>setControlDateCallbackWithStream\<close>: the first descriptor of
  the stream gets the callback; \<open>None\<close> when the list has no such descriptor.
\<close>

fun set_callback_in :: "Stream \<Rightarrow> stream_callback_t \<Rightarrow> stream_control_t list
    \<Rightarrow> stream_control_t list option" where
  "set_callback_in s cb [] = None"
| "set_callback_in s cb (it_s # rest) =
     (if stream it_s = s then Some (it_s\<lparr>stream_callback := cb\<rparr> # rest)
      else map_option ((#) it_s) (set_callback_in s cb rest))"

fun set_callback_procs :: "Stream \<Rightarrow> stream_callback_t \<Rightarrow> proc_ref list
    \<Rightarrow> (proc_ref \<Rightarrow> Processor) \<Rightarrow> proc_ref \<Rightarrow> Processor" where
  "set_callback_procs s cb [] h = h"
| "set_callback_procs s cb (it # its) h =
     (case set_callback_in s cb (getTargetStreams (h it)) of
        Some ts \<Rightarrow> h(it := (h it)\<lparr>target_streams := ts\<rparr>)
      | None \<Rightarrow> set_callback_procs s cb its h)"

definition setControlDateCallbackWithStream :: "Synthetic \<Rightarrow> stream_control_t \<Rightarrow> Synthetic" where
  "setControlDateCallbackWithStream S ctr_data =
     S\<lparr>heap := set_callback_procs (stream ctr_data) (stream_callback ctr_data)
                 (processors S) (heap S)\<rparr>"

fun check_control :: "(proc_ref \<Rightarrow> Processor) \<Rightarrow> proc_ref list \<Rightarrow> Stream \<Rightarrow> bool" where
  "check_control h [] s = False"
| "check_control h (it # its) s =
     (case find (\<lambda>it_s. stream it_s = s) (getTargetStreams (h it)) of
        Some it_s \<Rightarrow> True
      | None \<Rightarrow> check_control h its s)"

definition checkControlDateWithStream :: "Synthetic \<Rightarrow> Stream \<Rightarrow> bool" where
  "checkControlDateWithStream S s = check_control (heap S) (processors S) s"

definition Supports :: "Synthetic \<Rightarrow> Stream \<Rightarrow> bool" where
  "Supports S s = checkControlDateWithStream S s"

definition SupportsMode :: "Synthetic \<Rightarrow> Stream \<Rightarrow> Mode" where
  "SupportsMode S s =
     (if checkControlDateWithStream S s then support_mode (getControlDateWithStream S s)
      else MODE_LAST)"

definition GetStreamEnabledMode :: "Synthetic \<Rightarrow> Stream \<Rightarrow> Mode" where
  "GetStreamEnabledMode S s =
     (if checkControlDateWithStream S s then enabled_mode (getControlDateWithStream S s)
      else MODE_LAST)"

definition IsStreamDataEnabled :: "Synthetic \<Rightarrow> Stream \<Rightarrow> bool" where
  "IsStreamDataEnabled S s =
     (if checkControlDateWithStream S s
      then enabled_mode (getControlDateWithStream S s) = MODE_SYNTHETIC
           \<or> enabled_mode (getControlDateWithStream S s) = MODE_NATIVE
      else False)"

definition SetStreamCallback :: "Synthetic \<Rightarrow> Stream \<Rightarrow> stream_callback_t \<Rightarrow> Synthetic" where
  "SetStreamCallback S s callback =
     setControlDateCallbackWithStream S
       (stream_control_default\<lparr>stream := s,
          stream_callback := (if callback = None then None else callback)\<rparr>)"

definition HasStreamCallback :: "Synthetic \<Rightarrow> Stream \<Rightarrow> bool" where
  "HasStreamCallback S s =
     (if checkControlDateWithStream S s
      then (if stream_callback (getControlDateWithStream S s) \<noteq> None then True else False)
      else False)"

section \<open>Topology\<close>

text \<open>
  The \<^verbatim>\<open>AddChild\<close> calls of \<^verbatim>\<open>InitProcessors\<close>, as the child list of each stage
  under each calibration model. The root feeds the rectify stage under every model;
  the chain below the rectify stage is built for PINHOLE and KANNALA_BRANDT only.
\<close>

fun GetChilds :: "CalibrationModel \<Rightarrow> proc_ref \<Rightarrow> proc_ref list" where
  "GetChilds m root_processor = [rectify_processor]"
| "GetChilds PINHOLE rectify_processor = [disparity_processor]"
| "GetChilds PINHOLE disparity_processor = [disparitynormalized_processor, points_processor]"
| "GetChilds PINHOLE points_processor = [depth_processor]"
| "GetChilds KANNALA_BRANDT rectify_processor = [disparity_processor]"
| "GetChilds KANNALA_BRANDT disparity_processor = [disparitynormalized_processor, depth_processor]"
| "GetChilds KANNALA_BRANDT depth_processor = [points_processor]"
| "GetChilds m p = []"

definition all_processors :: "proc_ref list" where
  "all_processors =
     [root_processor, rectify_processor, disparity_processor,
      disparitynormalized_processor, points_processor, depth_processor]"

text \<open>
  Modelled from the spec: \<^verbatim>\<open>Processor::GetParent\<close> and the traversal helpers
  \<^verbatim>\<open>iterate_processor_CtoP_before\<close> and \<^verbatim>\<open>iterate_processor_PtoC_before\<close>
  (processor.h) are not among the sources. The parent of a stage is the stage that has
  it as a child; enabling traverses "from the owning stage toward the root" and
  "child-before-parent is explicitly not used", so the ancestors are visited first, the
  root before all, and the owning stage last; disabling traverses "from the stage toward
  its leaves". Each traversal is given as the list of stages in the order it visits
  them, the starting stage included.
\<close>

definition GetParent :: "CalibrationModel \<Rightarrow> proc_ref \<Rightarrow> proc_ref option" where
  "GetParent m p = find (\<lambda>q. p \<in> set (GetChilds m q)) all_processors"

fun level :: "CalibrationModel \<Rightarrow> proc_ref \<Rightarrow> nat" where
  "level m root_processor = 0"
| "level m rectify_processor = 1"
| "level m disparity_processor = 2"
| "level m disparitynormalized_processor = 3"
| "level KANNALA_BRANDT points_processor = 4"
| "level m points_processor = 3"
| "level KANNALA_BRANDT depth_processor = 3"
| "level m depth_processor = 4"

function iterate_processor_CtoP_before :: "CalibrationModel \<Rightarrow> proc_ref \<Rightarrow> proc_ref list" where
  "iterate_processor_CtoP_before m p =
     (case GetParent m p of
        None \<Rightarrow> []
      | Some q \<Rightarrow> iterate_processor_CtoP_before m q) @ [p]"
  by pat_completeness auto
termination
proof (relation "measure (\<lambda>(m, p). level m p)")
  show "wf (measure (\<lambda>(m, p). level m p))" by simp
next
  fix m p q
  assume "GetParent m p = Some q"
  then show "((m, q), (m, p)) \<in> measure (\<lambda>(m, p). level m p)"
    by (cases m; cases p) (auto simp: GetParent_def all_processors_def split: if_splits)
qed

function iterate_processor_PtoC_before :: "CalibrationModel \<Rightarrow> proc_ref \<Rightarrow> proc_ref list" where
  "iterate_processor_PtoC_before m p =
     p # concat (map (iterate_processor_PtoC_before m) (GetChilds m p))"
  by pat_completeness auto
termination
proof (relation "measure (\<lambda>(m, p). 5 - level m p)")
  show "wf (measure (\<lambda>(m, p). 5 - level m p))" by simp
next
  fix m p q
  assume "q \<in> set (GetChilds m p)"
  then show "((m, q), (m, p)) \<in> measure (\<lambda>(m, p). 5 - level m p)"
    by (cases m; cases p) auto
qed

declare iterate_processor_CtoP_before.simps [simp del]
declare iterate_processor_PtoC_before.simps [simp del]

section \<open>Enabling and disabling streams\<close>

text \<open>
  The loop over \<^verbatim>\<open>proce->target_streams_[i]\<close> in the lambda of
  \<^verbatim>\<open>EnableStreamData\<close>: the descriptors after the loop, the counter
  \<^verbatim>\<open>act_tag\<close>, and the streams the switch callback was called with, in order.
\<close>

fun enable_targets :: "bool \<Rightarrow> stream_control_t list
    \<Rightarrow> stream_control_t list \<times> nat \<times> Stream list" where
  "enable_targets try_tag [] = ([], 0, [])"
| "enable_targets try_tag (t # ts) =
     (case enable_targets try_tag ts of (ts', act_tag, called) \<Rightarrow>
        if enabled_mode t = MODE_LAST then
          (if \<not> try_tag
           then (t\<lparr>enabled_mode := MODE_SYNTHETIC\<rparr> # ts', Suc act_tag, stream t # called)
           else (t # ts', act_tag, stream t # called))
        else (t # ts', act_tag, called))"

definition enable_proce :: "bool \<Rightarrow> Processor \<Rightarrow> Processor \<times> Stream list" where
  "enable_proce try_tag proce =
     (case enable_targets try_tag (target_streams proce) of (ts', act_tag, called) \<Rightarrow>
        let proce' = proce\<lparr>target_streams := ts'\<rparr> in
        (if act_tag > 0 \<and> \<not> IsActivated proce' then Activate proce' else proce', called))"

fun disable_targets :: "bool \<Rightarrow> stream_control_t list
    \<Rightarrow> stream_control_t list \<times> nat \<times> Stream list" where
  "disable_targets try_tag [] = ([], 0, [])"
| "disable_targets try_tag (t # ts) =
     (case disable_targets try_tag ts of (ts', act_tag, called) \<Rightarrow>
        if enabled_mode t = MODE_SYNTHETIC then
          (if \<not> try_tag
           then (t\<lparr>enabled_mode := MODE_LAST\<rparr> # ts', Suc act_tag, stream t # called)
           else (t # ts', act_tag, stream t # called))
        else (t # ts', act_tag, called))"

definition disable_proce :: "bool \<Rightarrow> Processor \<Rightarrow> Processor \<times> Stream list" where
  "disable_proce try_tag proce =
     (case disable_targets try_tag (target_streams proce) of (ts', act_tag, called) \<Rightarrow>
        let proce' = proce\<lparr>target_streams := ts'\<rparr> in
        (if act_tag > 0 \<and> IsActivated proce' then Deactivate proce' else proce', called))"

text \<open>Applying the lambda to each visited stage in turn, on the store of stages.\<close>

fun visit :: "(Processor \<Rightarrow> Processor \<times> Stream list) \<Rightarrow> proc_ref list
    \<Rightarrow> (proc_ref \<Rightarrow> Processor) \<Rightarrow> (proc_ref \<Rightarrow> Processor) \<times> Stream list" where
  "visit fn [] h = (h, [])"
| "visit fn (p # ps) h =
     (case fn (h p) of (proce', called) \<Rightarrow>
        case visit fn ps (h(p := proce')) of (h', called') \<Rightarrow> (h', called @ called'))"

text \<open>
  \<^verbatim>\<open>EnableStreamData\<close> and \<^verbatim>\<open>DisableStreamData\<close> return the new state and the
  streams the switch callback was invoked with; with no processor for the stream,
  \<^verbatim>\<open>getProcessorWithStream\<close> yields no value and neither does the call.
\<close>

definition EnableStreamData :: "Synthetic \<Rightarrow> Stream \<Rightarrow> bool
    \<Rightarrow> error + (Synthetic \<times> Stream list)" where
  "EnableStreamData S s try_tag =
     (case getProcessorWithStream S s of
        Inl e \<Rightarrow> Inl e
      | Inr processor \<Rightarrow>
          (case visit (enable_proce try_tag)
                  (iterate_processor_CtoP_before (calib_model S) processor) (heap S) of
             (h', called) \<Rightarrow> Inr (S\<lparr>heap := h'\<rparr>, called)))"

definition DisableStreamData :: "Synthetic \<Rightarrow> Stream \<Rightarrow> bool
    \<Rightarrow> error + (Synthetic \<times> Stream list)" where
  "DisableStreamData S s try_tag =
     (case getProcessorWithStream S s of
        Inl e \<Rightarrow> Inl e
      | Inr processor \<Rightarrow>
          (case visit (disable_proce try_tag)
                  (iterate_processor_PtoC_before (calib_model S) processor) (heap S) of
             (h', called) \<Rightarrow> Inr (S\<lparr>heap := h'\<rparr>, called)))"

text \<open>A sequence of enable and disable calls, each with its \<^verbatim>\<open>try_tag\<close>.\<close>

datatype switch_call = Enable Stream bool | Disable Stream bool

fun switch :: "Synthetic \<Rightarrow> switch_call \<Rightarrow> error + (Synthetic \<times> Stream list)" where
  "switch S (Enable s try_tag) = EnableStreamData S s try_tag"
| "switch S (Disable s try_tag) = DisableStreamData S s try_tag"

fun switches :: "Synthetic \<Rightarrow> switch_call list \<Rightarrow> error + Synthetic" where
  "switches S [] = Inr S"
| "switches S (c # cs) =
     (case switch S c of Inl e \<Rightarrow> Inl e | Inr (S', called) \<Rightarrow> switches S' cs)"

section \<open>Construction\<close>

text \<open>
  \<^verbatim>\<open>InitCalibInfo\<close> with \<^verbatim>\<open>WITH_CAM_MODELS\<close> defined; without it the
  KANNALA_BRANDT branch is not compiled and that model is treated as any unknown one.
  The calibration data themselves (intrinsics, extrinsics) are not part of the state.
\<close>

definition InitCalibInfo :: "Synthetic \<Rightarrow> Synthetic" where
  "InitCalibInfo S =
     (if calib_model S = PINHOLE then S
      else if calib_model S = KANNALA_BRANDT then S
      else S\<lparr>calib_default_tag := True, calib_model := PINHOLE\<rparr>)"

definition new_Processor :: Processor where
  "new_Processor = \<lparr>target_streams = [], activated = False, last_output = None\<rparr>"

definition target :: "Stream \<Rightarrow> Mode \<Rightarrow> Mode \<Rightarrow> stream_control_t" where
  "target s sm em = \<lparr>stream = s, support_mode = sm, enabled_mode = em, stream_callback = None\<rparr>"

text \<open>
  The registrations of \<^verbatim>\<open>InitProcessors\<close> (\<^verbatim>\<open>addTargetStreams\<close>) and the order of
  its \<^verbatim>\<open>processors_.push_back\<close> calls.
\<close>

fun initial_processor :: "proc_ref \<Rightarrow> Processor" where
  "initial_processor rectify_processor =
     addTargetStreams (target RIGHT_RECTIFIED MODE_LAST MODE_LAST)
       (addTargetStreams (target LEFT_RECTIFIED MODE_LAST MODE_LAST) new_Processor)"
| "initial_processor disparity_processor =
     addTargetStreams (target DISPARITY MODE_LAST MODE_LAST) new_Processor"
| "initial_processor disparitynormalized_processor =
     addTargetStreams (target DISPARITY_NORMALIZED MODE_LAST MODE_LAST) new_Processor"
| "initial_processor points_processor =
     addTargetStreams (target POINTS MODE_LAST MODE_LAST) new_Processor"
| "initial_processor depth_processor =
     addTargetStreams (target DEPTH MODE_LAST MODE_LAST) new_Processor"
| "initial_processor root_processor =
     addTargetStreams (target RIGHT MODE_NATIVE MODE_NATIVE)
       (addTargetStreams (target LEFT MODE_NATIVE MODE_NATIVE) new_Processor)"

definition InitProcessors :: "Synthetic \<Rightarrow> Synthetic" where
  "InitProcessors S =
     S\<lparr>processors :=
         processors S @
           [root_processor, rectify_processor, disparity_processor,
            disparitynormalized_processor, points_processor, depth_processor],
       heap := initial_processor\<rparr>"

definition init_left_right :: "stream_control_t \<Rightarrow> stream_control_t" where
  "init_left_right t =
     (let t1 = (if stream t = LEFT then t\<lparr>support_mode := MODE_NATIVE\<rparr> else t)
      in if stream t1 = RIGHT then t1\<lparr>support_mode := MODE_NATIVE\<rparr> else t1)"

definition init_chain_target :: "Device \<Rightarrow> Stream \<Rightarrow> stream_control_t \<Rightarrow> stream_control_t" where
  "init_chain_target dev s t =
     (if stream t = s then
        (if dev_Supports dev s
         then t\<lparr>support_mode := MODE_NATIVE, enabled_mode := MODE_NATIVE\<rparr>
         else t\<lparr>support_mode := MODE_SYNTHETIC\<rparr>)
      else t)"

definition map_targets :: "(stream_control_t \<Rightarrow> stream_control_t) \<Rightarrow> proc_ref
    \<Rightarrow> Synthetic \<Rightarrow> Synthetic" where
  "map_targets f p S =
     S\<lparr>heap := (heap S)(p := (heap S p)\<lparr>target_streams := map f (target_streams (heap S p))\<rparr>)\<rparr>"

fun init_chain :: "Stream list \<Rightarrow> Synthetic \<Rightarrow> error + Synthetic" where
  "init_chain [] S = Inr S"
| "init_chain (s # ss) S =
     (case getProcessorWithStream S s of
        Inl e \<Rightarrow> Inl e
      | Inr processor \<Rightarrow> init_chain ss (map_targets (init_chain_target (device S) s) processor S))"

definition stream_chain :: "Stream list" where
  "stream_chain =
     [LEFT_RECTIFIED, RIGHT_RECTIFIED, DISPARITY, DISPARITY_NORMALIZED, POINTS, DEPTH]"

definition InitStreamSupports :: "Synthetic \<Rightarrow> error + Synthetic" where
  "InitStreamSupports S =
     (if dev_Supports (device S) LEFT \<and> dev_Supports (device S) RIGHT then
        (case getProcessorWithStream S LEFT of
           Inl e \<Rightarrow> Inl e
         | Inr processor \<Rightarrow> init_chain stream_chain (map_targets init_left_right processor S))
      else Inr S)"

text \<open>
  The constructor: the member initialisers, then \<^verbatim>\<open>InitCalibInfo\<close>,
  \<^verbatim>\<open>InitProcessors\<close> and \<^verbatim>\<open>InitStreamSupports\<close>. The constructor does not touch
  the function-scope statics: \<open>Synthetic_new\<close> is the construction of the first pipeline
  of a process, where they still hold their initial values (a null pointer, empty
  StreamData), and \<open>Synthetic_new_in\<close> is the construction of a further pipeline in a
  process whose statics are those of the state \<open>prev\<close>.
\<close>

definition Synthetic_members :: "Device \<Rightarrow> CalibrationModel \<Rightarrow> Synthetic" where
  "Synthetic_members dev m =
     \<lparr>device = dev, plugin = None, calib_model = m, calib_default_tag = False,
      stream_data_listener = None, processors = [], heap = (\<lambda>p. new_Processor),
      static_output = None,
      left_data = StreamData_empty, right_data = StreamData_empty,
      left_rect_data = StreamData_empty, right_rect_data = StreamData_empty\<rparr>"

definition Synthetic_new :: "Device \<Rightarrow> CalibrationModel \<Rightarrow> error + Synthetic" where
  "Synthetic_new dev m = InitStreamSupports (InitProcessors (InitCalibInfo (Synthetic_members dev m)))"

definition Synthetic_new_in :: "Synthetic \<Rightarrow> Device \<Rightarrow> CalibrationModel \<Rightarrow> error + Synthetic" where
  "Synthetic_new_in prev dev m =
     InitStreamSupports (InitProcessors (InitCalibInfo
       ((Synthetic_members dev m)
          \<lparr>static_output := static_output prev,
           left_data := left_data prev, right_data := right_data prev,
           left_rect_data := left_rect_data prev, right_rect_data := right_rect_data prev\<rparr>)))"

definition SetPlugin :: "Synthetic \<Rightarrow> Plugin option \<Rightarrow> Synthetic" where
  "SetPlugin S p = S\<lparr>plugin := p\<rparr>"

definition HasPlugin :: "Synthetic \<Rightarrow> bool" where
  "HasPlugin S = (plugin S \<noteq> None)"

section \<open>Reading the latest data of a stream\<close>

text \<open>
  The loop of the two-stream branch of \<^verbatim>\<open>GetStreamData\<close>: \<open>num\<close> counts the
  descriptors passed; at the descriptor of the stream, the first half is returned when
  \<open>num = 1\<close> and the second half otherwise. \<open>None\<close> when the loop ends with no match.
\<close>

fun paired_half :: "Stream \<Rightarrow> ObjMat2 \<Rightarrow> nat \<Rightarrow> stream_control_t list \<Rightarrow> StreamData option" where
  "paired_half s out num [] = None"
| "paired_half s out num (it # its) =
     (if stream it = s
      then (if num = 1 then Some (obj_data_first out) else Some (obj_data_second out))
      else paired_half s out (Suc num) its)"

text \<open>
  \<^verbatim>\<open>GetStreamData\<close> returns the data and the state, whose \<open>static_output\<close> the
  two-stream branch assigns when the stage has an output.
\<close>

definition GetStreamData :: "Synthetic \<Rightarrow> Stream \<Rightarrow> error + (StreamData \<times> Synthetic)" where
  "GetStreamData S s =
     (let mode = GetStreamEnabledMode S s in
      if mode = MODE_NATIVE then Inr (dev_GetStreamData (device S) s, S)
      else if mode = MODE_SYNTHETIC then
        (case getProcessorWithStream S s of
           Inl e \<Rightarrow> Inl e
         | Inr processor \<Rightarrow>
             let sum = getStreamsSum (heap S processor);
                 out = GetOutput (heap S processor)
             in
             if sum = 1 then
               (case out of
                  None \<Rightarrow> Inr (StreamData_empty, S)
                | Some ob \<Rightarrow>
                    (case Cast_ObjMat ob of
                       Some res \<Rightarrow> Inr (obj_data res, S)
                     | None \<Rightarrow> Inr (StreamData_empty, S)))
             else if sum = 2 then
               (let res = (case out of None \<Rightarrow> static_output S | Some ob \<Rightarrow> Cast_ObjMat2 ob);
                    S' = S\<lparr>static_output := res\<rparr>
                in
                case res of
                  None \<Rightarrow> Inr (StreamData_empty, S')
                | Some ob2 \<Rightarrow>
                    (case paired_half s ob2 0 (getTargetStreams (heap S processor)) of
                       Some d \<Rightarrow> Inr (d, S')
                     | None \<Rightarrow> Inr (StreamData_empty, S')))
             else Inr (StreamData_empty, S))
      else Inr (StreamData_empty, S))"

section \<open>Native streams: the dispatcher\<close>

text \<open>
  What a call of the dispatcher does to the outside: it calls the stream listener
  (\<open>Notify\<close>) and hands objects to stages (\<open>Process\<close>, the call
  \<^verbatim>\<open>processor->Process(obj)\<close>).
\<close>

datatype event = Notify Stream StreamData | Process proc_ref Object

definition NotifyStreamData :: "Synthetic \<Rightarrow> Stream \<Rightarrow> StreamData \<Rightarrow> event list" where
  "NotifyStreamData S s d = (if stream_data_listener S \<noteq> None then [Notify s d] else [])"

text \<open>
  \<^verbatim>\<open>process_childs\<close>: the object goes to every child of the named stage. The name
  lookup \<^verbatim>\<open>find_processor\<close> is given the stage it names.
\<close>

definition process_childs :: "CalibrationModel \<Rightarrow> proc_ref \<Rightarrow> Object \<Rightarrow> event list" where
  "process_childs m name obj = map (\<lambda>child. Process child obj) (GetChilds m name)"

text \<open>
  The test of both pairing branches:
  \<^verbatim>\<open>l.img && r.img && l.img->frame_id == r.img->frame_id\<close>.
\<close>

definition pair_ready :: "StreamData \<Rightarrow> StreamData \<Rightarrow> bool" where
  "pair_ready l r =
     (case img l of
        None \<Rightarrow> False
      | Some li \<Rightarrow> (case img r of None \<Rightarrow> False | Some ri \<Rightarrow> img_frame_id li = img_frame_id ri))"

definition ProcessNativeStream :: "Synthetic \<Rightarrow> Stream \<Rightarrow> StreamData
    \<Rightarrow> Synthetic \<times> event list" where
  "ProcessNativeStream S s d =
     (let notified = NotifyStreamData S s d in
      if s = LEFT \<or> s = RIGHT then
        (let S1 = (if s = LEFT then S\<lparr>left_data := d\<rparr>
                   else if s = RIGHT then S\<lparr>right_data := d\<rparr> else S)
         in if pair_ready (left_data S1) (right_data S1)
            then (S1, notified @
                    [Process rectify_processor
                       (Obj_Mat2 (data_obj2 (left_data S1) (right_data S1)))])
            else (S1, notified))
      else if s = LEFT_RECTIFIED \<or> s = RIGHT_RECTIFIED then
        (let S1 = (if s = LEFT_RECTIFIED then S\<lparr>left_rect_data := d\<rparr>
                   else if s = RIGHT_RECTIFIED then S\<lparr>right_rect_data := d\<rparr> else S)
         in if pair_ready (left_rect_data S1) (right_rect_data S1)
            then (S1, notified @
                    process_childs (calib_model S1) rectify_processor
                      (Obj_Mat2 (data_obj2 (left_rect_data S1) (right_rect_data S1))))
            else (S1, notified))
      else
        (case s of
           DISPARITY \<Rightarrow>
             (S, notified @ process_childs (calib_model S) disparity_processor (Obj_Mat (data_obj d)))
         | DISPARITY_NORMALIZED \<Rightarrow>
             (S, notified @
                process_childs (calib_model S) disparitynormalized_processor (Obj_Mat (data_obj d)))
         | POINTS \<Rightarrow>
             (if calib_model S = PINHOLE
              then (S, notified @ process_childs (calib_model S) points_processor (Obj_Mat (data_obj d)))
              else if calib_model S = KANNALA_BRANDT
              then (S, notified @ process_childs (calib_model S) points_processor (Obj_Mat (data_obj d)))
              else (S, notified))
         | DEPTH \<Rightarrow>
             (if calib_model S = PINHOLE
              then (S, notified @ process_childs (calib_model S) depth_processor (Obj_Mat (data_obj d)))
              else if calib_model S = KANNALA_BRANDT
              then (S, notified @ process_childs (calib_model S) depth_processor (Obj_Mat (data_obj d)))
              else (S, notified))
         | _ \<Rightarrow> (S, notified)))"

text \<open>A sequence of native arrivals, with everything the dispatcher did, in order.\<close>

fun arrivals :: "Synthetic \<Rightarrow> (Stream \<times> StreamData) list \<Rightarrow> Synthetic \<times> event list" where
  "arrivals S [] = (S, [])"
| "arrivals S ((s, d) # rest) =
     (case ProcessNativeStream S s d of (S1, evs) \<Rightarrow>
        case arrivals S1 rest of (S2, evs') \<Rightarrow> (S2, evs @ evs'))"

text \<open>The pairs handed to the rectify stage among the events.\<close>

fun pairs_emitted :: "event list \<Rightarrow> ObjMat2 list" where
  "pairs_emitted [] = []"
| "pairs_emitted (Process p (Obj_Mat2 ob) # evs) =
     (if p = rectify_processor then ob # pairs_emitted evs else pairs_emitted evs)"
| "pairs_emitted (ev # evs) = pairs_emitted evs"

section \<open>Process hooks\<close>

text \<open>
  Each hook returns its boolean and the output object as the plugin left it. The
  plugin handler is called only when a plugin is set
  (\<^verbatim>\<open>plugin_ && plugin_->OnRectifyProcess(in, out)\<close>).
\<close>

definition OnRectifyProcess :: "Synthetic \<Rightarrow> Object \<Rightarrow> Object \<Rightarrow> bool \<times> Object" where
  "OnRectifyProcess S inp out =
     (case plugin S of
        None \<Rightarrow> (GetStreamEnabledMode S LEFT_RECTIFIED \<noteq> MODE_SYNTHETIC, out)
      | Some pl \<Rightarrow>
          (case plugin_OnRectifyProcess pl inp out of (handled, out') \<Rightarrow>
             if handled then (True, out')
             else (GetStreamEnabledMode S LEFT_RECTIFIED \<noteq> MODE_SYNTHETIC, out')))"

definition OnDisparityProcess :: "Synthetic \<Rightarrow> Object \<Rightarrow> Object \<Rightarrow> bool \<times> Object" where
  "OnDisparityProcess S inp out =
     (case plugin S of
        None \<Rightarrow> (GetStreamEnabledMode S DISPARITY \<noteq> MODE_SYNTHETIC, out)
      | Some pl \<Rightarrow>
          (case plugin_OnDisparityProcess pl inp out of (handled, out') \<Rightarrow>
             if handled then (True, out')
             else (GetStreamEnabledMode S DISPARITY \<noteq> MODE_SYNTHETIC, out')))"

definition OnDisparityNormalizedProcess :: "Synthetic \<Rightarrow> Object \<Rightarrow> Object \<Rightarrow> bool \<times> Object" where
  "OnDisparityNormalizedProcess S inp out =
     (case plugin S of
        None \<Rightarrow> (GetStreamEnabledMode S DISPARITY_NORMALIZED \<noteq> MODE_SYNTHETIC, out)
      | Some pl \<Rightarrow>
          (case plugin_OnDisparityNormalizedProcess pl inp out of (handled, out') \<Rightarrow>
             if handled then (True, out')
             else (GetStreamEnabledMode S DISPARITY_NORMALIZED \<noteq> MODE_SYNTHETIC, out')))"

definition OnPointsProcess :: "Synthetic \<Rightarrow> Object \<Rightarrow> Object \<Rightarrow> bool \<times> Object" where
  "OnPointsProcess S inp out =
     (case plugin S of
        None \<Rightarrow> (GetStreamEnabledMode S POINTS \<noteq> MODE_SYNTHETIC, out)
      | Some pl \<Rightarrow>
          (case plugin_OnPointsProcess pl inp out of (handled, out') \<Rightarrow>
             if handled then (True, out')
             else (GetStreamEnabledMode S POINTS \<noteq> MODE_SYNTHETIC, out')))"

definition OnDepthProcess :: "Synthetic \<Rightarrow> Object \<Rightarrow> Object \<Rightarrow> bool \<times> Object" where
  "OnDepthProcess S inp out =
     (case plugin S of
        None \<Rightarrow> (GetStreamEnabledMode S DEPTH \<noteq> MODE_SYNTHETIC, out)
      | Some pl \<Rightarrow>
          (case plugin_OnDepthProcess pl inp out of (handled, out') \<Rightarrow>
             if handled then (True, out')
             else (GetStreamEnabledMode S DEPTH \<noteq> MODE_SYNTHETIC, out')))"

text \<open>
  The bindings of \<^verbatim>\<open>SetProcessCallback\<close> in \<^verbatim>\<open>InitProcessors\<close>: the hook of each
  stage. The root stage gets none.
\<close>

fun process_callback :: "Synthetic \<Rightarrow> proc_ref \<Rightarrow> (Object \<Rightarrow> Object \<Rightarrow> bool \<times> Object) option" where
  "process_callback S root_processor = None"
| "process_callback S rectify_processor = Some (OnRectifyProcess S)"
| "process_callback S disparity_processor = Some (OnDisparityProcess S)"
| "process_callback S disparitynormalized_processor = Some (OnDisparityNormalizedProcess S)"
| "process_callback S points_processor = Some (OnPointsProcess S)"
| "process_callback S depth_processor = Some (OnDepthProcess S)"

text \<open>
  The periods the stages are constructed with: \<^verbatim>\<open>ROOT_PROC_PERIOD\<close>,
  \<^verbatim>\<open>RECTIFY_PROC_PERIOD\<close>, \<^verbatim>\<open>DISPARITY_PROC_PERIOD\<close>,
  \<^verbatim>\<open>DISPARITY_NORM_PROC_PERIOD\<close>, \<^verbatim>\<open>POINTS_PROC_PERIOD\<close> and
  \<^verbatim>\<open>DEPTH_PROC_PERIOD\<close>, all defined as 0.
\<close>

fun proc_period :: "proc_ref \<Rightarrow> nat" where
  "proc_period root_processor = 0"
| "proc_period rectify_processor = 0"
| "proc_period disparity_processor = 0"
| "proc_period disparitynormalized_processor = 0"
| "proc_period points_processor = 0"
| "proc_period depth_processor = 0"

text \<open>
  Modelled from the spec: the execution of one input by a stage
  (\<^verbatim>\<open>Processor::Run\<close>, processor.cc) is not among the sources. "Inputs arriving
  while the stage is deactivated are discarded silently." "If a period p > 0 is set,
  drop all but every p-th input": \<open>dropped\<close> counts the inputs dropped since the last one
  executed, and an input is executed when the period is 0 or it is the p-th. "Call the
  process hook. If it returns true, the output is taken as-is. If false, invoke
  compute(in, out). On success, run the post-process hook." A stage without a hook goes
  to its kernel. The kernel is any function from the input and the output object to its
  success flag and the output it wrote; the result records whether the kernel was
  invoked, whether the post-process hook fired, and the output published (none when the
  input was discarded or dropped, or the kernel failed).
\<close>

record run_result =
  kernel_invoked :: bool
  post_process_fired :: bool
  published :: "Object option"

definition run_one :: "Processor \<Rightarrow> nat \<Rightarrow> nat
    \<Rightarrow> (Object \<Rightarrow> Object \<Rightarrow> bool \<times> Object) option
    \<Rightarrow> (Object \<Rightarrow> Object \<Rightarrow> bool \<times> Object) \<Rightarrow> Object \<Rightarrow> Object \<Rightarrow> run_result" where
  "run_one proce period dropped hook compute inp out =
     (if \<not> IsActivated proce
      then \<lparr>kernel_invoked = False, post_process_fired = False, published = None\<rparr>
      else if period > 0 \<and> Suc dropped < period
      then \<lparr>kernel_invoked = False, post_process_fired = False, published = None\<rparr>
      else
        (case (case hook of None \<Rightarrow> (False, out) | Some h \<Rightarrow> h inp out) of
           (satisfied, out1) \<Rightarrow>
             if satisfied
             then \<lparr>kernel_invoked = False, post_process_fired = True, published = Some out1\<rparr>
             else (case compute inp out1 of (ok, out2) \<Rightarrow>
                     if ok
                     then \<lparr>kernel_invoked = True, post_process_fired = True,
                            published = Some out2\<rparr>
                     else \<lparr>kernel_invoked = True, post_process_fired = False,
                            published = None\<rparr>)))"

section \<open>State predicates and example devices\<close>

text \<open>A stage has a target stream whose enabled mode is SYNTHETIC.\<close>

definition has_synthetic :: "Processor \<Rightarrow> bool" where
  "has_synthetic P = list_ex (\<lambda>t. enabled_mode t = MODE_SYNTHETIC) (target_streams P)"

text \<open>A stage has a target stream whose enabled mode differs from \<open>MODE_LAST\<close> (NONE).\<close>

definition has_enabled :: "Processor \<Rightarrow> bool" where
  "has_enabled P = list_ex (\<lambda>t. enabled_mode t \<noteq> MODE_LAST) (target_streams P)"

text \<open>A device that delivers LEFT and RIGHT only, and one that also delivers DISPARITY.\<close>

definition stereo_device :: Device where
  "stereo_device =
     \<lparr>dev_Supports = (\<lambda>s. s = LEFT \<or> s = RIGHT), dev_GetStreamData = (\<lambda>s. StreamData_empty)\<rparr>"

definition disparity_device :: Device where
  "disparity_device =
     \<lparr>dev_Supports = (\<lambda>s. s = LEFT \<or> s = RIGHT \<or> s = DISPARITY),
      dev_GetStreamData = (\<lambda>s. StreamData_empty)\<rparr>"

text \<open>
  What the constructor leaves in every stage: not activated, no output yet, no target
  enabled as SYNTHETIC, and every target that the device delivers (support mode NATIVE,
  or LEFT and RIGHT) enabled as NATIVE.
\<close>

definition init_ok :: "Processor \<Rightarrow> bool" where
  "init_ok P \<longleftrightarrow> \<not> activated P \<and> last_output P = None \<and>
     (\<forall>t \<in> set (target_streams P). enabled_mode t \<noteq> MODE_SYNTHETIC
        \<and> (support_mode t = MODE_NATIVE \<longrightarrow> enabled_mode t = MODE_NATIVE)
        \<and> (stream t = LEFT \<or> stream t = RIGHT \<longrightarrow> enabled_mode t = MODE_NATIVE))"

text \<open>A NATIVE-support target that is enabled NATIVE stays so.\<close>

definition native_kept :: "Processor \<Rightarrow> bool" where
  "native_kept P \<longleftrightarrow>
     (\<forall>t \<in> set (target_streams P). support_mode t = MODE_NATIVE \<longrightarrow> enabled_mode t = MODE_NATIVE)"

text \<open>Activation follows the SYNTHETIC targets.\<close>

definition activation_ok :: "Processor \<Rightarrow> bool" where
  "activation_ok P \<longleftrightarrow> (IsActivated P \<longleftrightarrow> has_synthetic P)"

text \<open>
  The state reached by constructing the pipeline on a device and then making a sequence
  of enable and disable calls.
\<close>

definition reached :: "Device \<Rightarrow> CalibrationModel \<Rightarrow> switch_call list \<Rightarrow> error + Synthetic" where
  "reached dev m calls =
     (case Synthetic_new dev m of Inl e \<Rightarrow> Inl e | Inr S0 \<Rightarrow> switches S0 calls)"

text \<open>A device that delivers LEFT, RIGHT and, of the rectified pair, LEFT_RECTIFIED only.\<close>

definition mixed_device :: Device where
  "mixed_device =
     \<lparr>dev_Supports = (\<lambda>s. s = LEFT \<or> s = RIGHT \<or> s = LEFT_RECTIFIED),
      dev_GetStreamData = (\<lambda>s. StreamData_empty)\<rparr>"

text \<open>The stage \<open>p\<close> of a reached state.\<close>

definition stage_of :: "error + Synthetic \<Rightarrow> proc_ref \<Rightarrow> error + Processor" where
  "stage_of r p = (case r of Inl e \<Rightarrow> Inl e | Inr S \<Rightarrow> Inr (heap S p))"

text \<open>
  Modelled from the spec: the publication of an output by a stage (\<^verbatim>\<open>Processor::Run\<close>)
  is not among the sources; the stage keeps the object as its most recent output.
\<close>

definition with_output :: "proc_ref \<Rightarrow> Object \<Rightarrow> Synthetic \<Rightarrow> Synthetic" where
  "with_output p ob S = S\<lparr>heap := (heap S)(p := (heap S p)\<lparr>last_output := Some ob\<rparr>)\<rparr>"

text \<open>
  The pipeline as constructed on \<open>stereo_device\<close> with the PINHOLE model, written out:
  the device delivers none of the chain streams, so each gets support mode SYNTHETIC
  and stays disabled.
\<close>

definition stereo_heap :: "proc_ref \<Rightarrow> Processor" where
  "stereo_heap p =
     (case p of
        root_processor \<Rightarrow>
          \<lparr>target_streams = [target LEFT MODE_NATIVE MODE_NATIVE, target RIGHT MODE_NATIVE MODE_NATIVE],
           activated = False, last_output = None\<rparr>
      | rectify_processor \<Rightarrow>
          \<lparr>target_streams = [target LEFT_RECTIFIED MODE_SYNTHETIC MODE_LAST,
                             target RIGHT_RECTIFIED MODE_SYNTHETIC MODE_LAST],
           activated = False, last_output = None\<rparr>
      | disparity_processor \<Rightarrow>
          \<lparr>target_streams = [target DISPARITY MODE_SYNTHETIC MODE_LAST],
           activated = False, last_output = None\<rparr>
      | disparitynormalized_processor \<Rightarrow>
          \<lparr>target_streams = [target DISPARITY_NORMALIZED MODE_SYNTHETIC MODE_LAST],
           activated = False, last_output = None\<rparr>
      | points_processor \<Rightarrow>
          \<lparr>target_streams = [target POINTS MODE_SYNTHETIC MODE_LAST],
           activated = False, last_output = None\<rparr>
      | depth_processor \<Rightarrow>
          \<lparr>target_streams = [target DEPTH MODE_SYNTHETIC MODE_LAST],
           activated = False, last_output = None\<rparr>)"

definition stereo_pinhole :: Synthetic where
  "stereo_pinhole =
     \<lparr>device = stereo_device, plugin = None, calib_model = PINHOLE, calib_default_tag = False,
      stream_data_listener = None, processors = all_processors, heap = stereo_heap,
      static_output = None,
      left_data = StreamData_empty, right_data = StreamData_empty,
      left_rect_data = StreamData_empty, right_rect_data = StreamData_empty\<rparr>"

text \<open>A native frame with metadata: one pixel value \<open>px\<close>, frame id \<open>n\<close>.\<close>

definition native_frame :: "nat \<Rightarrow> 16 word \<Rightarrow> StreamData" where
  "native_frame px n =
     \<lparr>img = Some \<lparr>img_frame_id = n, img_timestamp = 0, img_exposure_time = 0\<rparr>,
      frame = [px], frame_raw = None, frame_id = n\<rparr>"

text \<open>A native frame that carries a matrix and a frame id but no metadata.\<close>

definition bare_frame :: "nat \<Rightarrow> 16 word \<Rightarrow> StreamData" where
  "bare_frame px n = \<lparr>img = None, frame = [px], frame_raw = None, frame_id = n\<rparr>"

text \<open>
  The same pipeline after \<open>EnableStreamData(LEFT_RECTIFIED)\<close>: both targets of the rectify
  stage are SYNTHETIC and the stage is activated.
\<close>

definition rectified_heap :: "proc_ref \<Rightarrow> Processor" where
  "rectified_heap p =
     (if p = rectify_processor
      then \<lparr>target_streams = [target LEFT_RECTIFIED MODE_SYNTHETIC MODE_SYNTHETIC,
                              target RIGHT_RECTIFIED MODE_SYNTHETIC MODE_SYNTHETIC],
            activated = True, last_output = None\<rparr>
      else stereo_heap p)"

definition rectified_pinhole :: Synthetic where
  "rectified_pinhole = stereo_pinhole\<lparr>heap := rectified_heap\<rparr>"

text \<open>
  The pipeline of \<open>mixed_device\<close> after \<open>EnableStreamData(RIGHT_RECTIFIED)\<close>:
  LEFT_RECTIFIED is delivered by the device (NATIVE), RIGHT_RECTIFIED is SYNTHETIC.
\<close>

definition mixed_heap :: "proc_ref \<Rightarrow> Processor" where
  "mixed_heap p =
     (if p = rectify_processor
      then \<lparr>target_streams = [target LEFT_RECTIFIED MODE_NATIVE MODE_NATIVE,
                              target RIGHT_RECTIFIED MODE_SYNTHETIC MODE_SYNTHETIC],
            activated = True, last_output = None\<rparr>
      else stereo_heap p)"

definition mixed_pinhole :: Synthetic where
  "mixed_pinhole = stereo_pinhole\<lparr>device := mixed_device, heap := mixed_heap\<rparr>"

text \<open>
  A device that delivers LEFT, RIGHT and, of the rectified pair, RIGHT_RECTIFIED only,
  and its pipeline after \<open>EnableStreamData(LEFT_RECTIFIED)\<close>: LEFT_RECTIFIED is SYNTHETIC,
  RIGHT_RECTIFIED is delivered by the device (NATIVE).
\<close>

definition mirrored_device :: Device where
  "mirrored_device =
     \<lparr>dev_Supports = (\<lambda>s. s = LEFT \<or> s = RIGHT \<or> s = RIGHT_RECTIFIED),
      dev_GetStreamData = (\<lambda>s. StreamData_empty)\<rparr>"

definition mirrored_heap :: "proc_ref \<Rightarrow> Processor" where
  "mirrored_heap p =
     (if p = rectify_processor
      then \<lparr>target_streams = [target LEFT_RECTIFIED MODE_SYNTHETIC MODE_SYNTHETIC,
                              target RIGHT_RECTIFIED MODE_NATIVE MODE_NATIVE],
            activated = True, last_output = None\<rparr>
      else stereo_heap p)"

definition mirrored_pinhole :: Synthetic where
  "mirrored_pinhole = stereo_pinhole\<lparr>device := mirrored_device, heap := mirrored_heap\<rparr>"

text \<open>
  A plugin whose handlers all report the output as produced, one whose handlers all
  decline, an object to process, and a kernel that succeeds; each leaves the output
  object as it is.
\<close>

definition accepting_plugin :: Plugin where
  "accepting_plugin =
     \<lparr>plugin_OnRectifyProcess = (\<lambda>inp out. (True, out)),
      plugin_OnDisparityProcess = (\<lambda>inp out. (True, out)),
      plugin_OnDisparityNormalizedProcess = (\<lambda>inp out. (True, out)),
      plugin_OnPointsProcess = (\<lambda>inp out. (True, out)),
      plugin_OnDepthProcess = (\<lambda>inp out. (True, out))\<rparr>"

definition declining_plugin :: Plugin where
  "declining_plugin =
     \<lparr>plugin_OnRectifyProcess = (\<lambda>inp out. (False, out)),
      plugin_OnDisparityProcess = (\<lambda>inp out. (False, out)),
      plugin_OnDisparityNormalizedProcess = (\<lambda>inp out. (False, out)),
      plugin_OnPointsProcess = (\<lambda>inp out. (False, out)),
      plugin_OnDepthProcess = (\<lambda>inp out. (False, out))\<rparr>"

definition empty_object :: Object where
  "empty_object = Obj_Mat \<lparr>mvalue = [], mid = 0, mdata = None\<rparr>"

definition succeeding_kernel :: "Object \<Rightarrow> Object \<Rightarrow> bool \<times> Object" where
  "succeeding_kernel inp out = (True, out)"

text \<open>
  What the process hook of a stage does, as a property of the stage \<open>proce\<close>, its period,
  the hook bound to it, that hook, and the plugin's handler for the stage (none when no
  plugin is set): the hook is the one bound; it reports the output as satisfied exactly
  when the handler returns true or the enabled mode of the stage's first target stream
  is not SYNTHETIC; and when the stage is activated and the handler returns true, the
  execution of that input does not invoke the kernel and fires the post-process hook.
\<close>

definition hook_follows :: "Processor \<Rightarrow> nat
    \<Rightarrow> (Object \<Rightarrow> Object \<Rightarrow> bool \<times> Object) option
    \<Rightarrow> (Object \<Rightarrow> Object \<Rightarrow> bool \<times> Object)
    \<Rightarrow> (Object \<Rightarrow> Object \<Rightarrow> bool \<times> Object) option \<Rightarrow> bool" where
  "hook_follows proce period bound hook handler \<longleftrightarrow>
     bound = Some hook
     \<and> (\<forall>inp out.
           fst (hook inp out) \<longleftrightarrow>
             (\<exists>h. handler = Some h \<and> fst (h inp out))
             \<or> enabled_mode (hd (target_streams proce)) \<noteq> MODE_SYNTHETIC)
     \<and> (\<forall>inp out dropped compute.
           IsActivated proce \<and> (\<exists>h. handler = Some h \<and> fst (h inp out)) \<longrightarrow>
             \<not> kernel_invoked (run_one proce period dropped bound compute inp out)
             \<and> post_process_fired (run_one proce period dropped bound compute inp out))"

section \<open>Registry lookups: basic facts\<close>

lemma find_stream_None: "find (\<lambda>it_s. stream it_s = s) ts = None \<longleftrightarrow> s \<notin> set (map stream ts)"
  by (induction ts) auto

lemma find_stream_Some:
  "find (\<lambda>it_s. stream it_s = s) ts = Some c \<Longrightarrow> s \<in> set (map stream ts) \<and> stream c = s"
  by (induction ts) (auto split: if_splits)

lemma find_processor_with_find:
  "find_processor_with h ps s = find (\<lambda>p. s \<in> set (map stream (target_streams (h p)))) ps"
proof (induction ps)
  case Nil
  show ?case by simp
next
  case (Cons it its)
  show ?case
  proof (cases "find (\<lambda>it_s. stream it_s = s) (target_streams (h it))")
    case None
    with Cons show ?thesis
      using find_stream_None[of s "target_streams (h it)"] by (simp add: getTargetStreams_def)
  next
    case (Some c)
    with Cons show ?thesis
      using find_stream_Some[of s "target_streams (h it)" c] by (simp add: getTargetStreams_def)
  qed
qed

lemma check_control_find: "check_control h ps s \<longleftrightarrow> find_control h ps s \<noteq> None"
  by (induction ps) (auto split: option.splits)

lemma check_control_processor: "check_control h ps s \<longleftrightarrow> find_processor_with h ps s \<noteq> None"
  by (induction ps) (auto split: option.splits)

lemma find_control_stream: "find_control h ps s = Some c \<Longrightarrow> stream c = s"
  by (induction ps) (auto split: option.splits simp: find_Some_iff)

lemma find_control_in_processor:
  "find_processor_with h ps s = Some p \<Longrightarrow>
   find_control h ps s = find (\<lambda>it_s. stream it_s = s) (target_streams (h p))"
  by (induction ps) (auto split: option.splits simp: getTargetStreams_def)

lemma find_processor_with_cong:
  "(\<And>p. map stream (target_streams (h p)) = map stream (target_streams (h' p))) \<Longrightarrow>
   find_processor_with h ps s = find_processor_with h' ps s"
  by (simp add: find_processor_with_find)

section \<open>Callbacks\<close>

lemma set_callback_in_None:
  "set_callback_in s cb ts = None \<longleftrightarrow> find (\<lambda>it_s. stream it_s = s) ts = None"
  by (induction ts) auto

lemma set_callback_in_find_None:
  "find (\<lambda>it_s. stream it_s = s) ts = None \<Longrightarrow> set_callback_in s cb ts = None"
  by (simp add: set_callback_in_None)

lemma find_set_callback_in:
  "set_callback_in s cb ts = Some ts' \<Longrightarrow>
   find (\<lambda>it_s. stream it_s = s) ts' =
     map_option (\<lambda>c. c\<lparr>stream_callback := cb\<rparr>) (find (\<lambda>it_s. stream it_s = s) ts)"
  by (induction ts arbitrary: ts') (auto split: if_splits)

lemma set_callback_procs_other:
  "find (\<lambda>it_s. stream it_s = s) (getTargetStreams (h p)) = None \<Longrightarrow>
   set_callback_procs s cb ps h p = h p"
  by (induction ps) (auto split: option.splits simp: set_callback_in_find_None)

lemma find_control_set_callback:
  "find_control (set_callback_procs s cb ps h) ps s =
     map_option (\<lambda>c. c\<lparr>stream_callback := cb\<rparr>) (find_control h ps s)"
proof (induction ps)
  case Nil
  then show ?case by simp
next
  case (Cons it its)
  show ?case
  proof (cases "set_callback_in s cb (getTargetStreams (h it))")
    case None
    then have nf: "find (\<lambda>it_s. stream it_s = s) (getTargetStreams (h it)) = None"
      by (simp add: set_callback_in_None)
    then have "set_callback_procs s cb its h it = h it"
      by (rule set_callback_procs_other)
    with None nf Cons show ?thesis by simp
  next
    case (Some ts)
    from find_set_callback_in[OF Some]
    have "find (\<lambda>it_s. stream it_s = s) ts =
      map_option (\<lambda>c. c\<lparr>stream_callback := cb\<rparr>)
        (find (\<lambda>it_s. stream it_s = s) (getTargetStreams (h it)))" .
    moreover have "find (\<lambda>it_s. stream it_s = s) (getTargetStreams (h it)) \<noteq> None"
      using Some set_callback_in_None[of s cb "getTargetStreams (h it)"] by simp
    ultimately show ?thesis using Some
      by (auto simp: getTargetStreams_def split: option.splits)
  qed
qed

lemma HasStreamCallback_after_set:
  "HasStreamCallback (SetStreamCallback S s cb) s \<longleftrightarrow> Supports S s \<and> cb \<noteq> None"
  by (auto simp: HasStreamCallback_def SetStreamCallback_def setControlDateCallbackWithStream_def
      checkControlDateWithStream_def getControlDateWithStream_def check_control_find
      find_control_set_callback Supports_def split: option.splits)

section \<open>Enabling and disabling: the loops and the traversal\<close>
lemma enable_targets_eq:
  "enable_targets try_tag ts =
     (map (\<lambda>t. if enabled_mode t = MODE_LAST \<and> \<not> try_tag
                then t\<lparr>enabled_mode := MODE_SYNTHETIC\<rparr> else t) ts,
      if try_tag then 0 else length (filter (\<lambda>t. enabled_mode t = MODE_LAST) ts),
      map stream (filter (\<lambda>t. enabled_mode t = MODE_LAST) ts))"
  by (induction ts) auto

lemma disable_targets_eq:
  "disable_targets try_tag ts =
     (map (\<lambda>t. if enabled_mode t = MODE_SYNTHETIC \<and> \<not> try_tag
                then t\<lparr>enabled_mode := MODE_LAST\<rparr> else t) ts,
      if try_tag then 0 else length (filter (\<lambda>t. enabled_mode t = MODE_SYNTHETIC) ts),
      map stream (filter (\<lambda>t. enabled_mode t = MODE_SYNTHETIC) ts))"
  by (induction ts) auto

lemma enable_proce_streams:
  "map stream (target_streams (fst (enable_proce try_tag P))) = map stream (target_streams P)"
  by (simp add: enable_proce_def enable_targets_eq Let_def Activate_def o_def)

lemma disable_proce_streams:
  "map stream (target_streams (fst (disable_proce try_tag P))) = map stream (target_streams P)"
  by (simp add: disable_proce_def disable_targets_eq Let_def Deactivate_def o_def)

lemma fst_visit_Cons:
  "fst (visit fn (q # qs) h) = fst (visit fn qs (h(q := fst (fn (h q)))))"
  by (simp split: prod.splits)

lemma snd_visit_Cons:
  "snd (visit fn (q # qs) h) = snd (fn (h q)) @ snd (visit fn qs (h(q := fst (fn (h q)))))"
  by (simp split: prod.splits)

lemma visit_preserves:
  assumes "\<And>P. R P \<Longrightarrow> R (fst (fn P))"
  shows "(\<forall>p. R (h p)) \<Longrightarrow> (\<forall>p. R (fst (visit fn ps h) p))"
proof (induction ps arbitrary: h)
  case Nil
  then show ?case by simp
next
  case (Cons q qs)
  have "R (fst (fn (h q)))" using assms[of "h q"] Cons.prems by simp
  then have "\<forall>p. R ((h(q := fst (fn (h q)))) p)" using Cons.prems by simp
  from Cons.IH[OF this] show ?case unfolding fst_visit_Cons .
qed

lemma visit_relates:
  assumes "\<And>P. Q P (fst (fn P))" and "\<And>P. Q P P" and "\<And>A B C. Q A B \<Longrightarrow> Q B C \<Longrightarrow> Q A C"
  shows "Q (h p) (fst (visit fn ps h) p)"
proof (induction ps arbitrary: h)
  case Nil
  show ?case by (simp add: assms(2))
next
  case (Cons q qs)
  have step: "Q (h p) ((h(q := fst (fn (h q)))) p)"
    using assms(1)[of "h q"] assms(2) by simp
  from assms(3)[OF step Cons.IH[of "h(q := fst (fn (h q)))"]] show ?case
    by (simp only: fst_visit_Cons)
qed

lemma visit_streams:
  assumes "\<And>P. map stream (target_streams (fst (fn P))) = map stream (target_streams P)"
  shows "map stream (target_streams (fst (visit fn ps h) p)) = map stream (target_streams (h p))"
  using visit_relates[where Q = "\<lambda>A B. map stream (target_streams B) = map stream (target_streams A)"
      and fn = fn and h = h and p = p and ps = ps] assms by simp


text \<open>Idempotence of the enabling step on one stage.\<close>

lemma enable_proce_twice:
  "enable_proce False (fst (enable_proce False P)) = (fst (enable_proce False P), [])"
proof -
  have "filter (\<lambda>t. enabled_mode t = MODE_LAST)
          (map (\<lambda>t. if enabled_mode t = MODE_LAST then t\<lparr>enabled_mode := MODE_SYNTHETIC\<rparr> else t) ts) = []"
    for ts :: "stream_control_t list"
    by (induction ts) auto
  moreover have "map (\<lambda>t. if enabled_mode t = MODE_LAST then t\<lparr>enabled_mode := MODE_SYNTHETIC\<rparr> else t)
          (map (\<lambda>t. if enabled_mode t = MODE_LAST then t\<lparr>enabled_mode := MODE_SYNTHETIC\<rparr> else t) ts)
        = map (\<lambda>t. if enabled_mode t = MODE_LAST then t\<lparr>enabled_mode := MODE_SYNTHETIC\<rparr> else t) ts"
    for ts :: "stream_control_t list"
    by (induction ts) auto
  ultimately show ?thesis
    by (simp add: enable_proce_def enable_targets_eq Let_def Activate_def IsActivated_def)
qed

lemma visit_fixed:
  "(\<forall>p \<in> set ps. fn (h p) = (h p, [])) \<Longrightarrow> visit fn ps h = (h, [])"
  by (induction ps) auto

lemma visit_idem_value:
  assumes idem: "\<And>P. fn (fst (fn P)) = (fst (fn P), [])"
  shows "fst (visit fn ps h) p = (if p \<in> set ps then fst (fn (h p)) else h p)"
proof (induction ps arbitrary: h)
  case Nil
  show ?case by simp
next
  case (Cons q qs)
  show ?case
    by (simp only: fst_visit_Cons Cons.IH) (simp add: idem)
qed

lemma visit_twice:
  assumes idem: "\<And>P. fn (fst (fn P)) = (fst (fn P), [])"
  shows "visit fn ps (fst (visit fn ps h)) = (fst (visit fn ps h), [])"
proof -
  have "\<forall>p \<in> set ps. fn (fst (visit fn ps h) p) = (fst (visit fn ps h) p, [])"
    by (simp add: visit_idem_value[where fn = fn, OF idem] idem)
  then show ?thesis by (rule visit_fixed)
qed

lemma getProcessorWithStream_cong:
  "processors S' = processors S \<Longrightarrow>
   (\<And>p. map stream (target_streams (heap S' p)) = map stream (target_streams (heap S p))) \<Longrightarrow>
   getProcessorWithStream S' s = getProcessorWithStream S s"
  by (simp add: getProcessorWithStream_def find_processor_with_find)

section \<open>Construction: what the constructor establishes\<close>

lemma map_targets_fields [simp]:
  "heap (map_targets f p S) q =
     (if q = p then (heap S p)\<lparr>target_streams := map f (target_streams (heap S p))\<rparr> else heap S q)"
  "processors (map_targets f p S) = processors S"
  "device (map_targets f p S) = device S"
  "calib_model (map_targets f p S) = calib_model S"
  "static_output (map_targets f p S) = static_output S"
  "plugin (map_targets f p S) = plugin S"
  by (simp_all add: map_targets_def)

lemma init_chain_fields:
  "init_chain ss S = Inr S' \<Longrightarrow>
     processors S' = processors S \<and> device S' = device S \<and> calib_model S' = calib_model S
     \<and> static_output S' = static_output S \<and> plugin S' = plugin S"
  by (induction ss arbitrary: S) (auto split: sum.splits)

lemma init_chain_preserves:
  assumes step: "\<And>P s. R P \<Longrightarrow>
      R (P\<lparr>target_streams := map (init_chain_target dev s) (target_streams P)\<rparr>)"
  shows "init_chain ss S = Inr S' \<Longrightarrow> device S = dev \<Longrightarrow> (\<forall>p. R (heap S p))
         \<Longrightarrow> (\<forall>p. R (heap S' p))"
proof (induction ss arbitrary: S)
  case Nil
  then show ?case by simp
next
  case (Cons s ss)
  from Cons.prems(1) obtain q where q: "getProcessorWithStream S s = Inr q"
    and rest: "init_chain ss (map_targets (init_chain_target (device S) s) q S) = Inr S'"
    by (auto split: sum.splits)
  have "\<forall>p. R (heap (map_targets (init_chain_target (device S) s) q S) p)"
    using Cons.prems(2,3) step by simp
  from Cons.IH[OF rest _ this] Cons.prems(2) show ?case by simp
qed

text \<open>The registered streams of each stage never change after \<^verbatim>\<open>InitProcessors\<close>.\<close>

lemma init_chain_target_stream [simp]: "stream (init_chain_target dev s t) = stream t"
  by (simp add: init_chain_target_def)

lemma init_left_right_stream [simp]: "stream (init_left_right t) = stream t"
  by (simp add: init_left_right_def Let_def)

lemma initial_streams:
  "map stream (target_streams (initial_processor p)) =
     (case p of
        root_processor \<Rightarrow> [LEFT, RIGHT]
      | rectify_processor \<Rightarrow> [LEFT_RECTIFIED, RIGHT_RECTIFIED]
      | disparity_processor \<Rightarrow> [DISPARITY]
      | disparitynormalized_processor \<Rightarrow> [DISPARITY_NORMALIZED]
      | points_processor \<Rightarrow> [POINTS]
      | depth_processor \<Rightarrow> [DEPTH])"
  by (cases p) (simp_all add: addTargetStreams_def new_Processor_def target_def)

lemma owner_of_stream:
  assumes "processors S = all_processors"
    and "\<And>p. map stream (target_streams (heap S p)) = map stream (target_streams (initial_processor p))"
  shows "getProcessorWithStream S s =
     (case s of
        LEFT \<Rightarrow> Inr root_processor | RIGHT \<Rightarrow> Inr root_processor
      | LEFT_RECTIFIED \<Rightarrow> Inr rectify_processor | RIGHT_RECTIFIED \<Rightarrow> Inr rectify_processor
      | DISPARITY \<Rightarrow> Inr disparity_processor
      | DISPARITY_NORMALIZED \<Rightarrow> Inr disparitynormalized_processor
      | POINTS \<Rightarrow> Inr points_processor | DEPTH \<Rightarrow> Inr depth_processor
      | LAST \<Rightarrow> Inl (NoSuitedProcessor LAST))"
  by (cases s)
    (simp_all add: getProcessorWithStream_def find_processor_with_find assms all_processors_def
      initial_streams)

lemma init_chain_total:
  assumes "processors S = all_processors"
    and "\<And>p. map stream (target_streams (heap S p)) = map stream (target_streams (initial_processor p))"
    and "LAST \<notin> set ss"
  shows "\<exists>S'. init_chain ss S = Inr S'"
  using assms
proof (induction ss arbitrary: S)
  case Nil
  show ?case by simp
next
  case (Cons s ss)
  from Cons.prems(3) have "s \<noteq> LAST" by auto
  then obtain q where q: "getProcessorWithStream S s = Inr q"
    using owner_of_stream[OF Cons.prems(1,2), of s] by (cases s) auto
  have "\<exists>S'. init_chain ss (map_targets (init_chain_target (device S) s) q S) = Inr S'"
    using Cons.prems by (intro Cons.IH) (auto simp: o_def)
  with q show ?case by simp
qed

lemma init_chain_streams:
  "init_chain ss S = Inr S' \<Longrightarrow>
   map stream (target_streams (heap S' p)) = map stream (target_streams (heap S p))"
proof (induction ss arbitrary: S)
  case Nil
  then show ?case by simp
next
  case (Cons s ss)
  from Cons.prems(1) obtain q where
    rest: "init_chain ss (map_targets (init_chain_target (device S) s) q S) = Inr S'"
    by (auto split: sum.splits)
  have "map stream (target_streams (heap S' p)) =
        map stream (target_streams (heap (map_targets (init_chain_target (device S) s) q S) p))"
    by (rule Cons.IH[OF rest])
  then show ?case by (simp add: o_def)
qed

lemma Synthetic_new_total: "\<exists>S. Synthetic_new dev m = Inr S"
proof -
  let ?S = "InitProcessors (InitCalibInfo (Synthetic_members dev m))"
  have ps: "processors ?S = all_processors"
    by (simp add: InitProcessors_def InitCalibInfo_def Synthetic_members_def all_processors_def)
  have hp: "heap ?S = initial_processor"
    by (simp add: InitProcessors_def)
  have left: "getProcessorWithStream ?S LEFT = Inr root_processor"
    using owner_of_stream[OF ps, of LEFT] by (simp add: hp)
  have "\<exists>S'. init_chain stream_chain (map_targets init_left_right root_processor ?S) = Inr S'"
    by (rule init_chain_total) (simp_all add: ps hp o_def stream_chain_def)
  then show ?thesis
    unfolding Synthetic_new_def InitStreamSupports_def using left by auto
qed

lemma init_ok_initial: "init_ok (initial_processor p)"
  by (cases p) (simp_all add: init_ok_def addTargetStreams_def new_Processor_def target_def)

lemma init_ok_left_right:
  "init_ok P \<Longrightarrow> init_ok (P\<lparr>target_streams := map init_left_right (target_streams P)\<rparr>)"
  by (auto simp: init_ok_def init_left_right_def Let_def)

lemma init_ok_chain_target:
  "init_ok P \<Longrightarrow> init_ok (P\<lparr>target_streams := map (init_chain_target dev s) (target_streams P)\<rparr>)"
  by (auto simp: init_ok_def init_chain_target_def)

lemma Synthetic_new_established:
  assumes "Synthetic_new dev m = Inr S"
  shows "processors S = all_processors"
    and "map stream (target_streams (heap S p)) = map stream (target_streams (initial_processor p))"
    and "init_ok (heap S p)"
    and "static_output S = None"
    and "calib_model S = (if m = UNKNOW then PINHOLE else m)"
proof -
  let ?S = "InitProcessors (InitCalibInfo (Synthetic_members dev m))"
  have ps: "processors ?S = all_processors"
    by (simp add: InitProcessors_def InitCalibInfo_def Synthetic_members_def all_processors_def)
  have hp: "heap ?S = initial_processor"
    by (simp add: InitProcessors_def)
  have dv: "device ?S = dev"
    by (simp add: InitProcessors_def InitCalibInfo_def Synthetic_members_def)
  have so: "static_output ?S = None"
    by (simp add: InitProcessors_def InitCalibInfo_def Synthetic_members_def)
  have cm: "calib_model ?S = (if m = UNKNOW then PINHOLE else m)"
    by (cases m) (simp_all add: InitProcessors_def InitCalibInfo_def Synthetic_members_def)
  have left: "getProcessorWithStream ?S LEFT = Inr root_processor"
    using owner_of_stream[OF ps, of LEFT] by (simp add: hp)
  have all: "processors S = all_processors
      \<and> map stream (target_streams (heap S p)) = map stream (target_streams (initial_processor p))
      \<and> init_ok (heap S p) \<and> static_output S = None
      \<and> calib_model S = (if m = UNKNOW then PINHOLE else m)"
  proof (cases "dev_Supports dev LEFT \<and> dev_Supports dev RIGHT")
    case False
    then have "S = ?S"
      using assms dv by (auto simp: Synthetic_new_def InitStreamSupports_def split: if_splits)
    then show ?thesis using ps hp so cm by (simp add: init_ok_initial)
  next
    case True
    let ?S1 = "map_targets init_left_right root_processor ?S"
    have chain: "init_chain stream_chain ?S1 = Inr S"
      using assms True dv left by (simp add: Synthetic_new_def InitStreamSupports_def)
    have ok1: "\<forall>q. init_ok (heap ?S1 q)"
      by (simp add: hp init_ok_initial init_ok_left_right del: initial_processor.simps)
    have "\<forall>q. init_ok (heap S q)"
      by (rule init_chain_preserves[where dev = dev and R = init_ok, OF _ chain _ ok1])
        (simp_all add: init_ok_chain_target dv)
    moreover have "map stream (target_streams (heap S p)) = map stream (target_streams (heap ?S1 p))"
      by (rule init_chain_streams[OF chain])
    ultimately show ?thesis
      using init_chain_fields[OF chain] ps so cm by (simp add: hp o_def)
  qed
  from all show "processors S = all_processors" by simp
  from all show "map stream (target_streams (heap S p)) = map stream (target_streams (initial_processor p))" by simp
  from all show "init_ok (heap S p)" by simp
  from all show "static_output S = None" by simp
  from all show "calib_model S = (if m = UNKNOW then PINHOLE else m)" by simp
qed

section \<open>Invariants of enable and disable sequences\<close>

lemma EnableStreamData_result:
  assumes "EnableStreamData S s try_tag = Inr (S', called)"
  shows "\<exists>ps. S' = S\<lparr>heap := fst (visit (enable_proce try_tag) ps (heap S))\<rparr>"
proof -
  from assms obtain p where p: "getProcessorWithStream S s = Inr p"
    by (auto simp: EnableStreamData_def split: sum.splits)
  let ?ps = "iterate_processor_CtoP_before (calib_model S) p"
  from assms p have "S' = S\<lparr>heap := fst (visit (enable_proce try_tag) ?ps (heap S))\<rparr>"
    by (cases "visit (enable_proce try_tag) ?ps (heap S)") (simp add: EnableStreamData_def)
  then show ?thesis ..
qed

lemma DisableStreamData_result:
  assumes "DisableStreamData S s try_tag = Inr (S', called)"
  shows "\<exists>ps. S' = S\<lparr>heap := fst (visit (disable_proce try_tag) ps (heap S))\<rparr>"
proof -
  from assms obtain p where p: "getProcessorWithStream S s = Inr p"
    by (auto simp: DisableStreamData_def split: sum.splits)
  let ?ps = "iterate_processor_PtoC_before (calib_model S) p"
  from assms p have "S' = S\<lparr>heap := fst (visit (disable_proce try_tag) ?ps (heap S))\<rparr>"
    by (cases "visit (disable_proce try_tag) ?ps (heap S)") (simp add: DisableStreamData_def)
  then show ?thesis ..
qed

lemma switch_preserves:
  assumes en: "\<And>P t. R P \<Longrightarrow> R (fst (enable_proce t P))"
    and dis: "\<And>P t. R P \<Longrightarrow> R (fst (disable_proce t P))"
    and "switch S c = Inr (S', called)" and "\<forall>p. R (heap S p)"
  shows "\<forall>p. R (heap S' p)"
proof (cases c)
  case (Enable s t)
  with assms(3) obtain ps where "S' = S\<lparr>heap := fst (visit (enable_proce t) ps (heap S))\<rparr>"
    using EnableStreamData_result by fastforce
  then show ?thesis
    using visit_preserves[where R = R and fn = "enable_proce t", OF en assms(4)] by simp
next
  case (Disable s t)
  with assms(3) obtain ps where "S' = S\<lparr>heap := fst (visit (disable_proce t) ps (heap S))\<rparr>"
    using DisableStreamData_result by fastforce
  then show ?thesis
    using visit_preserves[where R = R and fn = "disable_proce t", OF dis assms(4)] by simp
qed

lemma switches_preserves:
  assumes en: "\<And>P t. R P \<Longrightarrow> R (fst (enable_proce t P))"
    and dis: "\<And>P t. R P \<Longrightarrow> R (fst (disable_proce t P))"
  shows "switches S cs = Inr S' \<Longrightarrow> \<forall>p. R (heap S p) \<Longrightarrow> \<forall>p. R (heap S' p)"
proof (induction cs arbitrary: S)
  case Nil
  then show ?case by simp
next
  case (Cons c cs)
  from Cons.prems(1) obtain S1 called where
    c: "switch S c = Inr (S1, called)" and rest: "switches S1 cs = Inr S'"
    by (auto split: sum.splits)
  have "\<forall>p. R (heap S1 p)"
    by (rule switch_preserves[where R = R, OF en dis c Cons.prems(2)])
  from Cons.IH[OF rest this] show ?case .
qed

lemma switch_fields:
  "switch S c = Inr (S', called) \<Longrightarrow>
     processors S' = processors S \<and> calib_model S' = calib_model S
     \<and> static_output S' = static_output S \<and> device S' = device S \<and> plugin S' = plugin S"
  by (cases c) (auto dest!: EnableStreamData_result DisableStreamData_result)

lemma switches_fields:
  "switches S cs = Inr S' \<Longrightarrow>
     processors S' = processors S \<and> calib_model S' = calib_model S
     \<and> static_output S' = static_output S \<and> device S' = device S \<and> plugin S' = plugin S"
proof (induction cs arbitrary: S)
  case Nil
  then show ?case by simp
next
  case (Cons c cs)
  from Cons.prems(1) obtain S1 called where
    c: "switch S c = Inr (S1, called)" and rest: "switches S1 cs = Inr S'"
    by (auto split: sum.splits)
  from Cons.IH[OF rest] switch_fields[OF c] show ?case by simp
qed

lemma native_kept_enable: "native_kept P \<Longrightarrow> native_kept (fst (enable_proce t P))"
  by (auto simp: native_kept_def enable_proce_def enable_targets_eq Let_def Activate_def)

lemma native_kept_disable: "native_kept P \<Longrightarrow> native_kept (fst (disable_proce t P))"
  by (auto simp: native_kept_def disable_proce_def disable_targets_eq Let_def Deactivate_def)

lemma find_Some_member: "find P xs = Some x \<Longrightarrow> x \<in> set xs"
  by (induction xs) (auto split: if_splits)

lemma find_control_member:
  "find_control h ps s = Some c \<Longrightarrow> \<exists>p. c \<in> set (target_streams (h p))"
  by (induction ps) (auto split: option.splits simp: getTargetStreams_def dest: find_Some_member)

lemma filter_nonempty_list_ex: "filter P xs = [] \<longleftrightarrow> \<not> list_ex P xs"
  by (induction xs) auto

lemma synthetic_after_enable:
  "list_ex (\<lambda>t. enabled_mode t = MODE_SYNTHETIC)
     (map (\<lambda>t. if enabled_mode t = MODE_LAST \<and> \<not> try_tag
                then t\<lparr>enabled_mode := MODE_SYNTHETIC\<rparr> else t) ts)
   \<longleftrightarrow> list_ex (\<lambda>t. enabled_mode t = MODE_SYNTHETIC) ts
        \<or> (\<not> try_tag \<and> list_ex (\<lambda>t. enabled_mode t = MODE_LAST) ts)"
  by (induction ts) auto

lemma synthetic_after_disable:
  "list_ex (\<lambda>t. enabled_mode t = MODE_SYNTHETIC)
     (map (\<lambda>t. if enabled_mode t = MODE_SYNTHETIC \<and> \<not> try_tag
                then t\<lparr>enabled_mode := MODE_LAST\<rparr> else t) ts)
   \<longleftrightarrow> try_tag \<and> list_ex (\<lambda>t. enabled_mode t = MODE_SYNTHETIC) ts"
  by (induction ts) auto

lemma activation_ok_enable: "activation_ok P \<Longrightarrow> activation_ok (fst (enable_proce t P))"
  by (auto simp: activation_ok_def has_synthetic_def enable_proce_def enable_targets_eq Let_def
      Activate_def IsActivated_def synthetic_after_enable filter_nonempty_list_ex)

lemma activation_ok_disable: "activation_ok P \<Longrightarrow> activation_ok (fst (disable_proce t P))"
  by (auto simp: activation_ok_def has_synthetic_def disable_proce_def disable_targets_eq Let_def
      Deactivate_def IsActivated_def synthetic_after_disable filter_nonempty_list_ex)

text \<open>
  Before any stage has produced: in every state reached from the constructor by enable
  and disable calls, no stage has an output and the static cache of
  \<^verbatim>\<open>GetStreamData\<close> is null.
\<close>

lemma reached_nothing_produced:
  assumes "reached dev m calls = Inr S"
  shows "static_output S = None" and "GetOutput (heap S p) = None"
proof -
  obtain S0 where new: "Synthetic_new dev m = Inr S0" and calls: "switches S0 calls = Inr S"
    using assms by (auto simp: reached_def split: sum.splits)
  show "static_output S = None"
    using switches_fields[OF calls] Synthetic_new_established(4)[OF new] by simp
  have "\<forall>q. last_output (heap S0 q) = None"
    using Synthetic_new_established(3)[OF new] by (simp add: init_ok_def)
  moreover have "last_output (fst (enable_proce t P)) = last_output P" for t P
    by (simp add: enable_proce_def enable_targets_eq Let_def Activate_def)
  moreover have "last_output (fst (disable_proce t P)) = last_output P" for t P
    by (simp add: disable_proce_def disable_targets_eq Let_def Deactivate_def)
  ultimately have "\<forall>q. last_output (heap S q) = None"
    using switches_preserves[where R = "\<lambda>P. last_output P = None", OF _ _ calls] by simp
  then show "GetOutput (heap S p) = None"
    by (simp add: GetOutput_def)
qed

section \<open>Evaluation on the example devices\<close>

lemmas construct_defs = Synthetic_new_def InitStreamSupports_def InitProcessors_def
  InitCalibInfo_def Synthetic_members_def getProcessorWithStream_def getTargetStreams_def
  addTargetStreams_def new_Processor_def target_def map_targets_def init_left_right_def
  init_chain_target_def stream_chain_def

lemmas switch_defs = reached_def stage_of_def EnableStreamData_def DisableStreamData_def
  iterate_processor_CtoP_before.simps iterate_processor_PtoC_before.simps GetParent_def
  all_processors_def enable_proce_def disable_proce_def Activate_def Deactivate_def
  IsActivated_def

lemma Synthetic_new_stereo_pinhole: "Synthetic_new stereo_device PINHOLE = Inr stereo_pinhole"
proof -
  have "\<exists>h. Synthetic_new stereo_device PINHOLE = Inr (stereo_pinhole\<lparr>heap := h\<rparr>)
            \<and> (\<forall>p. h p = stereo_heap p)"
    apply (simp add: construct_defs stereo_device_def stereo_pinhole_def all_processors_def)
    apply (rule allI)
    subgoal for p
      by (cases p) (simp_all add: stereo_heap_def target_def addTargetStreams_def new_Processor_def)
    done
  then obtain h where
    h: "Synthetic_new stereo_device PINHOLE = Inr (stereo_pinhole\<lparr>heap := h\<rparr>)" "\<forall>p. h p = stereo_heap p"
    by blast
  then have "h = stereo_heap" by (simp add: fun_eq_iff)
  with h show ?thesis by (simp add: stereo_pinhole_def)
qed

lemma stage_of_Inr: "stage_of r p = Inr P \<Longrightarrow> \<exists>S. r = Inr S \<and> heap S p = P"
  by (cases r) (simp_all add: stage_of_def)

section \<open>Reading stream data\<close>

lemma owner_registers:
  "getProcessorWithStream S s = Inr p \<Longrightarrow> s \<in> set (map stream (target_streams (heap S p)))"
  by (auto simp: getProcessorWithStream_def find_processor_with_find find_Some_iff
      split: option.splits)

lemma Supports_owner: "Supports S s \<longleftrightarrow> (\<exists>p. getProcessorWithStream S s = Inr p)"
  by (auto simp: Supports_def checkControlDateWithStream_def check_control_processor
      getProcessorWithStream_def split: option.splits)

lemmas read_defs = GetStreamData_def GetStreamEnabledMode_def checkControlDateWithStream_def
  getControlDateWithStream_def getStreamsSum_def GetOutput_def getTargetStreams_def
  getProcessorWithStream_def all_processors_def stereo_pinhole_def stereo_heap_def target_def
  with_output_def Supports_def HasStreamCallback_def rectified_pinhole_def rectified_heap_def

lemma Enable_stereo_pinhole:
  "EnableStreamData stereo_pinhole LEFT_RECTIFIED False
     = Inr (rectified_pinhole, [LEFT_RECTIFIED, RIGHT_RECTIFIED])"
proof -
  have "\<exists>h. EnableStreamData stereo_pinhole LEFT_RECTIFIED False
              = Inr (stereo_pinhole\<lparr>heap := h\<rparr>, [LEFT_RECTIFIED, RIGHT_RECTIFIED])
            \<and> (\<forall>p. h p = rectified_heap p)"
    apply (simp add: switch_defs getProcessorWithStream_def getTargetStreams_def
        stereo_pinhole_def stereo_heap_def target_def)
    apply (rule allI)
    subgoal for p by (cases p) (simp_all add: rectified_heap_def stereo_heap_def target_def)
    done
  then obtain h where h: "EnableStreamData stereo_pinhole LEFT_RECTIFIED False
              = Inr (stereo_pinhole\<lparr>heap := h\<rparr>, [LEFT_RECTIFIED, RIGHT_RECTIFIED])"
    "\<forall>p. h p = rectified_heap p"
    by blast
  then have "h = rectified_heap" by (simp add: fun_eq_iff)
  with h show ?thesis by (simp add: rectified_pinhole_def)
qed

section \<open>The dispatcher\<close>

lemma pair_ready_iff:
  "pair_ready l r \<longleftrightarrow>
     (\<exists>li ri. img l = Some li \<and> img r = Some ri \<and> img_frame_id li = img_frame_id ri)"
  by (auto simp: pair_ready_def split: option.splits)

lemma pairs_emitted_append: "pairs_emitted (xs @ ys) = pairs_emitted xs @ pairs_emitted ys"
  by (induction xs rule: pairs_emitted.induct) auto

lemma pairs_emitted_Notify: "pairs_emitted (NotifyStreamData S s d) = []"
  by (simp add: NotifyStreamData_def)

lemma arrivals_append:
  "arrivals S (as @ bs) =
     (fst (arrivals (fst (arrivals S as)) bs),
      snd (arrivals S as) @ snd (arrivals (fst (arrivals S as)) bs))"
  by (induction as arbitrary: S) (auto split: prod.splits)

lemma arrivals_single: "arrivals S [(s, d)] = ProcessNativeStream S s d"
  by (simp split: prod.splits)

lemma ProcessNativeStream_left_right:
  assumes "s = LEFT \<or> s = RIGHT"
  shows "left_data (fst (ProcessNativeStream S s d)) = (if s = LEFT then d else left_data S)"
    and "right_data (fst (ProcessNativeStream S s d)) = (if s = RIGHT then d else right_data S)"
    and "pairs_emitted (snd (ProcessNativeStream S s d)) =
           (if pair_ready (left_data (fst (ProcessNativeStream S s d)))
                          (right_data (fst (ProcessNativeStream S s d)))
            then [data_obj2 (left_data (fst (ProcessNativeStream S s d)))
                            (right_data (fst (ProcessNativeStream S s d)))]
            else [])"
  using assms
  by (auto simp: ProcessNativeStream_def Let_def pairs_emitted_append pairs_emitted_Notify)

lemmas dispatch_defs = ProcessNativeStream_def NotifyStreamData_def pair_ready_def
  stereo_pinhole_def native_frame_def bare_frame_def data_obj2_def StreamData_empty_def

section \<open>Process hooks\<close>

lemma OnRectifyProcess_fst:
  "fst (OnRectifyProcess S inp out) \<longleftrightarrow>
     (\<exists>pl. plugin S = Some pl \<and> fst (plugin_OnRectifyProcess pl inp out))
     \<or> GetStreamEnabledMode S LEFT_RECTIFIED \<noteq> MODE_SYNTHETIC"
  by (auto simp: OnRectifyProcess_def split: option.splits prod.splits)

lemma OnDisparityProcess_fst:
  "fst (OnDisparityProcess S inp out) \<longleftrightarrow>
     (\<exists>pl. plugin S = Some pl \<and> fst (plugin_OnDisparityProcess pl inp out))
     \<or> GetStreamEnabledMode S DISPARITY \<noteq> MODE_SYNTHETIC"
  by (auto simp: OnDisparityProcess_def split: option.splits prod.splits)

lemma OnDisparityNormalizedProcess_fst:
  "fst (OnDisparityNormalizedProcess S inp out) \<longleftrightarrow>
     (\<exists>pl. plugin S = Some pl \<and> fst (plugin_OnDisparityNormalizedProcess pl inp out))
     \<or> GetStreamEnabledMode S DISPARITY_NORMALIZED \<noteq> MODE_SYNTHETIC"
  by (auto simp: OnDisparityNormalizedProcess_def split: option.splits prod.splits)

lemma OnPointsProcess_fst:
  "fst (OnPointsProcess S inp out) \<longleftrightarrow>
     (\<exists>pl. plugin S = Some pl \<and> fst (plugin_OnPointsProcess pl inp out))
     \<or> GetStreamEnabledMode S POINTS \<noteq> MODE_SYNTHETIC"
  by (auto simp: OnPointsProcess_def split: option.splits prod.splits)

lemma OnDepthProcess_fst:
  "fst (OnDepthProcess S inp out) \<longleftrightarrow>
     (\<exists>pl. plugin S = Some pl \<and> fst (plugin_OnDepthProcess pl inp out))
     \<or> GetStreamEnabledMode S DEPTH \<noteq> MODE_SYNTHETIC"
  by (auto simp: OnDepthProcess_def split: option.splits prod.splits)

lemma run_one_satisfied:
  "IsActivated proce \<Longrightarrow> fst (hook inp out) \<Longrightarrow>
     \<not> kernel_invoked (run_one proce 0 dropped (Some hook) compute inp out)
     \<and> post_process_fired (run_one proce 0 dropped (Some hook) compute inp out)
     \<and> published (run_one proce 0 dropped (Some hook) compute inp out) = Some (snd (hook inp out))"
  by (cases "hook inp out") (simp add: run_one_def split: prod.splits)

lemma run_one_fall_through:
  "IsActivated proce \<Longrightarrow> \<not> fst (hook inp out) \<Longrightarrow>
     kernel_invoked (run_one proce 0 dropped (Some hook) compute inp out)"
  by (cases "hook inp out") (simp add: run_one_def split: prod.splits)

lemma reached_mixed_pinhole:
  "reached mixed_device PINHOLE [Enable RIGHT_RECTIFIED False] = Inr mixed_pinhole"
proof -
  have "\<exists>h. reached mixed_device PINHOLE [Enable RIGHT_RECTIFIED False]
              = Inr (mixed_pinhole\<lparr>heap := h\<rparr>)
            \<and> (\<forall>p. h p = mixed_heap p)"
    apply (simp add: construct_defs switch_defs mixed_device_def mixed_pinhole_def
        stereo_pinhole_def)
    apply (rule allI)
    subgoal for p by (cases p) (simp_all add: mixed_heap_def stereo_heap_def target_def)
    done
  then obtain h where h: "reached mixed_device PINHOLE [Enable RIGHT_RECTIFIED False]
              = Inr (mixed_pinhole\<lparr>heap := h\<rparr>)"
    "\<forall>p. h p = mixed_heap p"
    by blast
  then have "h = mixed_heap" by (simp add: fun_eq_iff)
  with h show ?thesis by (simp add: mixed_pinhole_def)
qed

lemmas mode_defs = GetStreamEnabledMode_def checkControlDateWithStream_def
  getControlDateWithStream_def getTargetStreams_def all_processors_def stereo_pinhole_def
  stereo_heap_def target_def rectified_pinhole_def rectified_heap_def mixed_pinhole_def
  mixed_heap_def

section \<open>The hooks on reached states\<close>

lemma switch_streams:
  assumes "switch S c = Inr (S', called)"
  shows "map stream (target_streams (heap S' p)) = map stream (target_streams (heap S p))"
proof (cases c)
  case (Enable s t)
  with assms obtain ps where "S' = S\<lparr>heap := fst (visit (enable_proce t) ps (heap S))\<rparr>"
    using EnableStreamData_result by fastforce
  then show ?thesis by (simp add: visit_streams enable_proce_streams)
next
  case (Disable s t)
  with assms obtain ps where "S' = S\<lparr>heap := fst (visit (disable_proce t) ps (heap S))\<rparr>"
    using DisableStreamData_result by fastforce
  then show ?thesis by (simp add: visit_streams disable_proce_streams)
qed

lemma switches_streams:
  "switches S cs = Inr S' \<Longrightarrow>
   map stream (target_streams (heap S' p)) = map stream (target_streams (heap S p))"
proof (induction cs arbitrary: S)
  case Nil
  then show ?case by simp
next
  case (Cons c cs)
  from Cons.prems obtain S1 called where
    c: "switch S c = Inr (S1, called)" and rest: "switches S1 cs = Inr S'"
    by (auto split: sum.splits)
  from Cons.IH[OF rest] switch_streams[OF c] show ?case by simp
qed

lemma reached_shape:
  assumes "reached dev m calls = Inr S"
  shows "processors S = all_processors"
    and "map stream (target_streams (heap S p)) = map stream (target_streams (initial_processor p))"
    and "plugin S = None"
proof -
  obtain S0 where new: "Synthetic_new dev m = Inr S0" and calls: "switches S0 calls = Inr S"
    using assms by (auto simp: reached_def split: sum.splits)
  show "processors S = all_processors"
    using switches_fields[OF calls] Synthetic_new_established(1)[OF new] by simp
  show "map stream (target_streams (heap S p)) = map stream (target_streams (initial_processor p))"
    using switches_streams[OF calls] Synthetic_new_established(2)[OF new] by simp
  have "plugin S0 = None"
  proof (cases "dev_Supports dev LEFT \<and> dev_Supports dev RIGHT")
    case False
    then show ?thesis
      using new
      by (auto simp: Synthetic_new_def InitStreamSupports_def InitProcessors_def InitCalibInfo_def
          Synthetic_members_def split: if_splits)
  next
    case True
    then obtain q where "init_chain stream_chain
        (map_targets init_left_right q
           (InitProcessors (InitCalibInfo (Synthetic_members dev m)))) = Inr S0"
      using new
      by (auto simp: Synthetic_new_def InitStreamSupports_def InitProcessors_def InitCalibInfo_def
          Synthetic_members_def split: if_splits sum.splits)
    from init_chain_fields[OF this] show ?thesis
      by (simp add: InitProcessors_def InitCalibInfo_def Synthetic_members_def)
  qed
  then show "plugin S = None"
    using switches_fields[OF calls] by simp
qed

lemma find_first_stream:
  "map stream ts = s # rest \<Longrightarrow> find (\<lambda>t. stream t = s) ts = Some (hd ts)"
  by (cases ts) auto

lemma mode_of_first_target:
  assumes "getProcessorWithStream S s = Inr p"
    and "map stream (target_streams (heap S p)) = s # rest"
  shows "GetStreamEnabledMode S s = enabled_mode (hd (target_streams (heap S p)))"
proof -
  have f: "find_processor_with (heap S) (processors S) s = Some p"
    using assms(1) by (auto simp: getProcessorWithStream_def split: option.splits)
  have "find_control (heap S) (processors S) s = Some (hd (target_streams (heap S p)))"
    using find_control_in_processor[OF f] find_first_stream[OF assms(2)] by simp
  then show ?thesis
    by (simp add: GetStreamEnabledMode_def checkControlDateWithStream_def check_control_find
        getControlDateWithStream_def)
qed

lemma SetPlugin_fields [simp]:
  "heap (SetPlugin S pg) = heap S" "processors (SetPlugin S pg) = processors S"
  "plugin (SetPlugin S pg) = pg"
  by (simp_all add: SetPlugin_def)

lemma GetStreamEnabledMode_SetPlugin [simp]:
  "GetStreamEnabledMode (SetPlugin S pg) s = GetStreamEnabledMode S s"
  by (simp add: GetStreamEnabledMode_def checkControlDateWithStream_def
      getControlDateWithStream_def)

lemma reached_modes:
  assumes "reached dev m calls = Inr S"
  shows "GetStreamEnabledMode S LEFT_RECTIFIED
           = enabled_mode (hd (target_streams (heap S rectify_processor)))"
    and "GetStreamEnabledMode S DISPARITY
           = enabled_mode (hd (target_streams (heap S disparity_processor)))"
    and "GetStreamEnabledMode S DISPARITY_NORMALIZED
           = enabled_mode (hd (target_streams (heap S disparitynormalized_processor)))"
    and "GetStreamEnabledMode S POINTS
           = enabled_mode (hd (target_streams (heap S points_processor)))"
    and "GetStreamEnabledMode S DEPTH
           = enabled_mode (hd (target_streams (heap S depth_processor)))"
proof -
  note sh = reached_shape(1,2)[OF assms]
  note ow = owner_of_stream[OF sh]
  show "GetStreamEnabledMode S LEFT_RECTIFIED
           = enabled_mode (hd (target_streams (heap S rectify_processor)))"
    by (rule mode_of_first_target[where rest = "[RIGHT_RECTIFIED]"])
      (simp_all add: ow sh(2) initial_streams del: initial_processor.simps)
  show "GetStreamEnabledMode S DISPARITY
           = enabled_mode (hd (target_streams (heap S disparity_processor)))"
    by (rule mode_of_first_target[where rest = "[]"]) (simp_all add: ow sh(2) initial_streams del: initial_processor.simps)
  show "GetStreamEnabledMode S DISPARITY_NORMALIZED
           = enabled_mode (hd (target_streams (heap S disparitynormalized_processor)))"
    by (rule mode_of_first_target[where rest = "[]"]) (simp_all add: ow sh(2) initial_streams del: initial_processor.simps)
  show "GetStreamEnabledMode S POINTS
           = enabled_mode (hd (target_streams (heap S points_processor)))"
    by (rule mode_of_first_target[where rest = "[]"]) (simp_all add: ow sh(2) initial_streams del: initial_processor.simps)
  show "GetStreamEnabledMode S DEPTH
           = enabled_mode (hd (target_streams (heap S depth_processor)))"
    by (rule mode_of_first_target[where rest = "[]"]) (simp_all add: ow sh(2) initial_streams del: initial_processor.simps)
qed

lemma reached_rectified_pinhole:
  "reached stereo_device PINHOLE [Enable LEFT_RECTIFIED False] = Inr rectified_pinhole"
  by (simp add: reached_def Synthetic_new_stereo_pinhole Enable_stereo_pinhole)

lemma reached_mirrored_pinhole:
  "reached mirrored_device PINHOLE [Enable LEFT_RECTIFIED False] = Inr mirrored_pinhole"
proof -
  have "\<exists>h. reached mirrored_device PINHOLE [Enable LEFT_RECTIFIED False]
              = Inr (mirrored_pinhole\<lparr>heap := h\<rparr>)
            \<and> (\<forall>p. h p = mirrored_heap p)"
    apply (simp add: construct_defs switch_defs mirrored_device_def mirrored_pinhole_def
        stereo_pinhole_def)
    apply (rule allI)
    subgoal for p by (cases p) (simp_all add: mirrored_heap_def stereo_heap_def target_def)
    done
  then obtain h where h: "reached mirrored_device PINHOLE [Enable LEFT_RECTIFIED False]
              = Inr (mirrored_pinhole\<lparr>heap := h\<rparr>)"
    "\<forall>p. h p = mirrored_heap p"
    by blast
  then have "h = mirrored_heap" by (simp add: fun_eq_iff)
  with h show ?thesis by (simp add: mirrored_pinhole_def)
qed

lemma hook_followsI:
  assumes "bound = Some hook"
    and "\<And>inp out. fst (hook inp out) \<longleftrightarrow>
            (\<exists>pl. pg = Some pl \<and> fst (handler pl inp out)) \<or> mode \<noteq> MODE_SYNTHETIC"
    and "mode = enabled_mode (hd (target_streams proce))"
  shows "hook_follows proce 0 bound hook (map_option handler pg)"
proof -
  have h: "(\<exists>h. map_option handler pg = Some h \<and> fst (h inp out))
           \<longleftrightarrow> (\<exists>pl. pg = Some pl \<and> fst (handler pl inp out))" for inp out
    by (cases pg) auto
  show ?thesis
    unfolding hook_follows_def h
    using assms run_one_satisfied[of proce hook] by auto
qed

section \<open>The claims\<close>

text \<open>
  C1 (what the code does). For a stream \<open>s\<close> enabled as SYNTHETIC whose stage
  registers the two streams \<open>[s1, s2]\<close> in this order and has a paired output,
  \<open>GetStreamData(s)\<close> returns the second half for the stream registered first and
  the first half for the stream registered second. The rectify stage registers
  LEFT_RECTIFIED before RIGHT_RECTIFIED, so \<open>GetStreamData(LEFT_RECTIFIED)\<close> returns the
  right (second) half of the rectify output and \<open>GetStreamData(RIGHT_RECTIFIED)\<close> the
  left (first) half: the halves are exchanged with respect to the claim, and with
  respect to \<^verbatim>\<open>OnRectifyPostProcess\<close>, which reports the first half as LEFT_RECTIFIED.
\<close>

theorem C1_paired_halves_swapped:
  assumes mode: "GetStreamEnabledMode S s = MODE_SYNTHETIC"
    and owner: "getProcessorWithStream S s = Inr p"
    and two: "map stream (target_streams (heap S p)) = [s1, s2]"
    and out: "GetOutput (heap S p) = Some (Obj_Mat2 ob)"
  shows "GetStreamData S s =
           Inr (if s = s1 then obj_data_second ob else obj_data_first ob,
                S\<lparr>static_output := Some ob\<rparr>)"
proof -
  from two obtain a b where ab: "target_streams (heap S p) = [a, b]" "stream a = s1" "stream b = s2"
    by (auto simp: map_eq_Cons_conv)
  have "s = s1 \<or> s = s2"
    using owner_registers[OF owner] two by auto
  then show ?thesis
    using mode owner out ab
    by (auto simp: GetStreamData_def getStreamsSum_def getTargetStreams_def Let_def)
qed

text \<open>
  On the pipeline of a LEFT/RIGHT-only device after \<open>EnableStreamData(LEFT_RECTIFIED)\<close>,
  with the rectify output holding pixel 10 on the left and pixel 20 on the right:
  \<open>GetStreamData(LEFT_RECTIFIED)\<close> yields the frame with pixel 20.
\<close>

theorem C1_paired_halves_swapped_witness:
  "EnableStreamData stereo_pinhole LEFT_RECTIFIED False
     = Inr (rectified_pinhole, [LEFT_RECTIFIED, RIGHT_RECTIFIED])
   \<and> map_sum id fst
       (GetStreamData
          (with_output rectify_processor
             (Obj_Mat2 (data_obj2 (native_frame 10 7) (native_frame 20 7))) rectified_pinhole)
          LEFT_RECTIFIED)
     = Inr (native_frame 20 7)
   \<and> map_sum id fst
       (GetStreamData
          (with_output rectify_processor
             (Obj_Mat2 (data_obj2 (native_frame 10 7) (native_frame 20 7))) rectified_pinhole)
          RIGHT_RECTIFIED)
     = Inr (native_frame 10 7)"
proof -
  let ?S = "with_output rectify_processor
             (Obj_Mat2 (data_obj2 (native_frame 10 7) (native_frame 20 7))) rectified_pinhole"
  have streams: "map stream (target_streams (heap ?S rectify_processor)) = [LEFT_RECTIFIED, RIGHT_RECTIFIED]"
    by (simp add: read_defs)
  have out: "GetOutput (heap ?S rectify_processor)
               = Some (Obj_Mat2 (data_obj2 (native_frame 10 7) (native_frame 20 7)))"
    by (simp add: read_defs)
  have l: "GetStreamEnabledMode ?S LEFT_RECTIFIED = MODE_SYNTHETIC"
          "getProcessorWithStream ?S LEFT_RECTIFIED = Inr rectify_processor"
    by (simp_all add: read_defs)
  have r: "GetStreamEnabledMode ?S RIGHT_RECTIFIED = MODE_SYNTHETIC"
          "getProcessorWithStream ?S RIGHT_RECTIFIED = Inr rectify_processor"
    by (simp_all add: read_defs)
  show ?thesis
    using C1_paired_halves_swapped[OF l streams out] C1_paired_halves_swapped[OF r streams out]
      Enable_stereo_pinhole
    by (simp add: obj_data_first_def obj_data_second_def data_obj2_def native_frame_def)
qed

text \<open>
  C2 as stated fails. On a device that delivers DISPARITY natively, after
  \<open>EnableStreamData(DISPARITY_NORMALIZED)\<close> the disparity stage has its target enabled
  (NATIVE) and is not activated: the traversal visits it and finds nothing to switch.
  On a device that delivers LEFT_RECTIFIED but not RIGHT_RECTIFIED, enabling and then
  disabling RIGHT_RECTIFIED deactivates the rectify stage although its LEFT_RECTIFIED
  target is still enabled (NATIVE).
\<close>

theorem C2_counterexample:
  "stage_of (reached disparity_device PINHOLE [Enable DISPARITY_NORMALIZED False]) disparity_processor
     = Inr \<lparr>target_streams = [target DISPARITY MODE_NATIVE MODE_NATIVE],
            activated = False, last_output = None\<rparr>
   \<and> has_enabled \<lparr>target_streams = [target DISPARITY MODE_NATIVE MODE_NATIVE],
                   activated = False, last_output = None\<rparr>
   \<and> \<not> IsActivated \<lparr>target_streams = [target DISPARITY MODE_NATIVE MODE_NATIVE],
                       activated = False, last_output = None\<rparr>
   \<and> stage_of (reached mixed_device PINHOLE [Enable RIGHT_RECTIFIED False]) rectify_processor
     = Inr \<lparr>target_streams = [target LEFT_RECTIFIED MODE_NATIVE MODE_NATIVE,
                               target RIGHT_RECTIFIED MODE_SYNTHETIC MODE_SYNTHETIC],
            activated = True, last_output = None\<rparr>
   \<and> stage_of (reached mixed_device PINHOLE
                 [Enable RIGHT_RECTIFIED False, Disable RIGHT_RECTIFIED False]) rectify_processor
     = Inr \<lparr>target_streams = [target LEFT_RECTIFIED MODE_NATIVE MODE_NATIVE,
                               target RIGHT_RECTIFIED MODE_SYNTHETIC MODE_LAST],
            activated = False, last_output = None\<rparr>
   \<and> has_enabled \<lparr>target_streams = [target LEFT_RECTIFIED MODE_NATIVE MODE_NATIVE,
                                      target RIGHT_RECTIFIED MODE_SYNTHETIC MODE_LAST],
                   activated = False, last_output = None\<rparr>"
  by (simp add: construct_defs switch_defs disparity_device_def mixed_device_def has_enabled_def)

text \<open>
  C2, amended. In every state reached from the constructor by any sequence of
  \<open>EnableStreamData\<close> and \<open>DisableStreamData\<close> calls, each stage is activated if and only
  if at least one of its target streams has enabled mode SYNTHETIC; and the disabling
  step deactivates a stage only when it is not a dry run and the stage had a SYNTHETIC
  target, after which it has none (targets enabled as NATIVE are not counted).
\<close>

theorem C2_activated_iff_synthetic:
  assumes "reached dev m calls = Inr S"
  shows "(\<forall>p. IsActivated (heap S p) \<longleftrightarrow> has_synthetic (heap S p))
         \<and> (\<forall>P t. IsActivated P \<and> \<not> IsActivated (fst (disable_proce t P))
                \<longrightarrow> \<not> t \<and> has_synthetic P \<and> \<not> has_synthetic (fst (disable_proce t P)))"
proof -
  obtain S0 where new: "Synthetic_new dev m = Inr S0" and calls: "switches S0 calls = Inr S"
    using assms by (auto simp: reached_def split: sum.splits)
  have "\<forall>p. activation_ok (heap S0 p)"
    using Synthetic_new_established(3)[OF new]
    by (auto simp: activation_ok_def init_ok_def IsActivated_def has_synthetic_def list_ex_iff)
  then have "\<forall>p. activation_ok (heap S p)"
    using switches_preserves[where R = activation_ok, OF _ _ calls]
      activation_ok_enable activation_ok_disable by blast
  moreover have "\<not> t \<and> has_synthetic P \<and> \<not> has_synthetic (fst (disable_proce t P))"
    if "IsActivated P \<and> \<not> IsActivated (fst (disable_proce t P))" for P t
    using that
    by (auto simp: has_synthetic_def disable_proce_def disable_targets_eq Let_def
        Deactivate_def IsActivated_def synthetic_after_disable filter_nonempty_list_ex
        split: if_splits)
  ultimately show ?thesis unfolding activation_ok_def by blast
qed

text \<open>
  Scenario 5 of the specification on a LEFT/RIGHT-only device: DEPTH and
  DISPARITY_NORMALIZED enabled, then DISPARITY_NORMALIZED disabled. The disparity stage
  stays activated, the normalizing stage is deactivated.
\<close>

theorem C2_activated_iff_synthetic_witness:
  "stage_of (reached stereo_device PINHOLE
       [Enable DEPTH False, Enable DISPARITY_NORMALIZED False, Disable DISPARITY_NORMALIZED False])
     disparity_processor
     = Inr \<lparr>target_streams = [target DISPARITY MODE_SYNTHETIC MODE_SYNTHETIC],
            activated = True, last_output = None\<rparr>
   \<and> stage_of (reached stereo_device PINHOLE
       [Enable DEPTH False, Enable DISPARITY_NORMALIZED False, Disable DISPARITY_NORMALIZED False])
     disparitynormalized_processor
     = Inr \<lparr>target_streams = [target DISPARITY_NORMALIZED MODE_SYNTHETIC MODE_LAST],
            activated = False, last_output = None\<rparr>
   \<and> has_synthetic \<lparr>target_streams = [target DISPARITY MODE_SYNTHETIC MODE_SYNTHETIC],
            activated = True, last_output = None\<rparr>
   \<and> \<not> has_synthetic \<lparr>target_streams = [target DISPARITY_NORMALIZED MODE_SYNTHETIC MODE_LAST],
            activated = False, last_output = None\<rparr>"
proof -
  let ?r = "reached stereo_device PINHOLE
       [Enable DEPTH False, Enable DISPARITY_NORMALIZED False, Disable DISPARITY_NORMALIZED False]"
  let ?D = "\<lparr>target_streams = [target DISPARITY MODE_SYNTHETIC MODE_SYNTHETIC],
            activated = True, last_output = None\<rparr>"
  let ?N = "\<lparr>target_streams = [target DISPARITY_NORMALIZED MODE_SYNTHETIC MODE_LAST],
            activated = False, last_output = None\<rparr>"
  have d: "stage_of ?r disparity_processor = Inr ?D"
    by (simp add: construct_defs switch_defs stereo_device_def)
  have n: "stage_of ?r disparitynormalized_processor = Inr ?N"
    by (simp add: construct_defs switch_defs stereo_device_def)
  from d obtain S where S: "?r = Inr S" "heap S disparity_processor = ?D"
    using stage_of_Inr by blast
  with n have N: "heap S disparitynormalized_processor = ?N"
    by (simp add: stage_of_def)
  from C2_activated_iff_synthetic[OF S(1)]
  have "IsActivated (heap S disparity_processor) = has_synthetic (heap S disparity_processor)"
    and "IsActivated (heap S disparitynormalized_processor)
          = has_synthetic (heap S disparitynormalized_processor)"
    by blast+
  with S(2) N d n show ?thesis by (simp add: IsActivated_def)
qed

text \<open>
  C3 as stated fails. The test of the dispatcher is on the metadata pointer \<open>img\<close> of
  each slot and on the frame ids inside the metadata, not on the matrix \<open>frame\<close> and the
  \<open>frame_id\<close> member: after a LEFT and a RIGHT frame that both carry a matrix and the
  frame id 7 but no metadata, both slots hold a matrix, the frame ids are equal, and no
  pair is emitted.
\<close>

theorem C3_counterexample:
  "pairs_emitted (snd (arrivals stereo_pinhole [(LEFT, bare_frame 1 7), (RIGHT, bare_frame 2 7)])) = []
   \<and> frame (left_data (fst (arrivals stereo_pinhole
        [(LEFT, bare_frame 1 7), (RIGHT, bare_frame 2 7)]))) = [1]
   \<and> frame (right_data (fst (arrivals stereo_pinhole
        [(LEFT, bare_frame 1 7), (RIGHT, bare_frame 2 7)]))) = [2]
   \<and> frame_id (left_data (fst (arrivals stereo_pinhole
        [(LEFT, bare_frame 1 7), (RIGHT, bare_frame 2 7)]))) = 7
   \<and> frame_id (right_data (fst (arrivals stereo_pinhole
        [(LEFT, bare_frame 1 7), (RIGHT, bare_frame 2 7)]))) = 7"
  by (simp add: dispatch_defs)

text \<open>
  C3, amended. For every sequence of native arrivals followed by a LEFT or RIGHT
  arrival: the arriving frame replaces the content of its eye's slot, whatever was
  there, and the other slot is kept; and exactly one pair, made of the two slots, is
  handed to the rectify stage when after that update both slots hold image metadata
  (\<open>img\<close> is not null) and the frame ids of the two metadata records are equal;
  otherwise nothing is handed to it.
\<close>

theorem C3_pair_on_matching_metadata:
  assumes "s = LEFT \<or> s = RIGHT"
  shows "left_data (fst (arrivals S (as @ [(s, d)])))
           = (if s = LEFT then d else left_data (fst (arrivals S as)))
       \<and> right_data (fst (arrivals S (as @ [(s, d)])))
           = (if s = RIGHT then d else right_data (fst (arrivals S as)))
       \<and> pairs_emitted (snd (arrivals S (as @ [(s, d)])))
           = pairs_emitted (snd (arrivals S as)) @
             (if \<exists>li ri. img (left_data (fst (arrivals S (as @ [(s, d)])))) = Some li
                      \<and> img (right_data (fst (arrivals S (as @ [(s, d)])))) = Some ri
                      \<and> img_frame_id li = img_frame_id ri
              then [data_obj2 (left_data (fst (arrivals S (as @ [(s, d)]))))
                              (right_data (fst (arrivals S (as @ [(s, d)]))))]
              else [])"
  using ProcessNativeStream_left_right[OF assms, of "fst (arrivals S as)" d]
  by (simp only: arrivals_append arrivals_single fst_conv snd_conv pairs_emitted_append
      pair_ready_iff)

text \<open>
  LEFT id 42, LEFT id 43, then RIGHT id 43 (all with metadata): nothing is emitted for
  the two LEFT frames, the slot holds the id-43 frame, and the RIGHT frame emits exactly
  the pair of the two id-43 frames.
\<close>

theorem C3_pair_on_matching_metadata_witness:
  "pairs_emitted (snd (arrivals stereo_pinhole
       [(LEFT, native_frame 1 42), (LEFT, native_frame 2 43), (RIGHT, native_frame 3 43)]))
     = [data_obj2 (native_frame 2 43) (native_frame 3 43)]
   \<and> pairs_emitted (snd (arrivals stereo_pinhole
       [(LEFT, native_frame 1 42), (LEFT, native_frame 2 43)])) = []
   \<and> left_data (fst (arrivals stereo_pinhole
       [(LEFT, native_frame 1 42), (LEFT, native_frame 2 43)])) = native_frame 2 43"
proof -
  have two: "pairs_emitted (snd (arrivals stereo_pinhole
       [(LEFT, native_frame 1 42), (LEFT, native_frame 2 43)])) = []"
    by (simp add: dispatch_defs)
  have l: "left_data (fst (arrivals stereo_pinhole
       [(LEFT, native_frame 1 42), (LEFT, native_frame 2 43)])) = native_frame 2 43"
    by (simp add: dispatch_defs)
  have s: "RIGHT = LEFT \<or> RIGHT = RIGHT" by simp
  from C3_pair_on_matching_metadata[OF s, of stereo_pinhole
      "[(LEFT, native_frame 1 42), (LEFT, native_frame 2 43)]" "native_frame 3 43"]
  show ?thesis using two l by (simp add: native_frame_def)
qed

text \<open>
  C4 as stated fails for the rectify stage, which has two target streams. On a device
  that delivers LEFT_RECTIFIED only, after \<open>EnableStreamData(RIGHT_RECTIFIED)\<close> no plugin
  is set and the target RIGHT_RECTIFIED is SYNTHETIC, yet the hook reports the output as
  satisfied. On a device that delivers RIGHT_RECTIFIED only, after
  \<open>EnableStreamData(LEFT_RECTIFIED)\<close> no plugin is set and the target RIGHT_RECTIFIED is
  not SYNTHETIC, yet the hook does not report the output as satisfied.
\<close>

theorem C4_counterexample:
  "reached mixed_device PINHOLE [Enable RIGHT_RECTIFIED False] = Inr mixed_pinhole
   \<and> HasPlugin mixed_pinhole = False
   \<and> GetStreamEnabledMode mixed_pinhole LEFT_RECTIFIED = MODE_NATIVE
   \<and> GetStreamEnabledMode mixed_pinhole RIGHT_RECTIFIED = MODE_SYNTHETIC
   \<and> fst (OnRectifyProcess mixed_pinhole empty_object empty_object) = True
   \<and> reached mirrored_device PINHOLE [Enable LEFT_RECTIFIED False] = Inr mirrored_pinhole
   \<and> HasPlugin mirrored_pinhole = False
   \<and> GetStreamEnabledMode mirrored_pinhole LEFT_RECTIFIED = MODE_SYNTHETIC
   \<and> GetStreamEnabledMode mirrored_pinhole RIGHT_RECTIFIED = MODE_NATIVE
   \<and> fst (OnRectifyProcess mirrored_pinhole empty_object empty_object) = False"
  using reached_mixed_pinhole reached_mirrored_pinhole
  by (simp add: mode_defs mirrored_pinhole_def mirrored_heap_def OnRectifyProcess_def
      HasPlugin_def)

text \<open>
  C4, amended. In every state reached from the constructor by enable and disable calls,
  with any plugin set or none, for every stage that has a process hook (every stage but
  the root) and every input: the hook reports the output as satisfied if and only if
  the plugin is set and its handler for that stage returns true, or the stage's first
  registered target stream has an enabled mode other than SYNTHETIC. That stream is the
  only target stream of the disparity, disparity-normalizing, points and depth stages,
  and LEFT_RECTIFIED for the rectify stage, whose second target RIGHT_RECTIFIED is not
  read. When the stage is activated and the plugin handler returns true, the execution
  of that input does not invoke the built-in kernel and fires the post-process hook.
\<close>

theorem C4_hook_reads_first_target:
  assumes "reached dev m calls = Inr S0"
  shows "process_callback (SetPlugin S0 pg) root_processor = None
    \<and> map stream (target_streams (heap S0 rectify_processor)) = [LEFT_RECTIFIED, RIGHT_RECTIFIED]
    \<and> hook_follows (heap S0 rectify_processor) (proc_period rectify_processor)
         (process_callback (SetPlugin S0 pg) rectify_processor)
         (OnRectifyProcess (SetPlugin S0 pg)) (map_option plugin_OnRectifyProcess pg)
    \<and> map stream (target_streams (heap S0 disparity_processor)) = [DISPARITY]
    \<and> hook_follows (heap S0 disparity_processor) (proc_period disparity_processor)
         (process_callback (SetPlugin S0 pg) disparity_processor)
         (OnDisparityProcess (SetPlugin S0 pg)) (map_option plugin_OnDisparityProcess pg)
    \<and> map stream (target_streams (heap S0 disparitynormalized_processor)) = [DISPARITY_NORMALIZED]
    \<and> hook_follows (heap S0 disparitynormalized_processor)
         (proc_period disparitynormalized_processor)
         (process_callback (SetPlugin S0 pg) disparitynormalized_processor)
         (OnDisparityNormalizedProcess (SetPlugin S0 pg))
         (map_option plugin_OnDisparityNormalizedProcess pg)
    \<and> map stream (target_streams (heap S0 points_processor)) = [POINTS]
    \<and> hook_follows (heap S0 points_processor) (proc_period points_processor)
         (process_callback (SetPlugin S0 pg) points_processor)
         (OnPointsProcess (SetPlugin S0 pg)) (map_option plugin_OnPointsProcess pg)
    \<and> map stream (target_streams (heap S0 depth_processor)) = [DEPTH]
    \<and> hook_follows (heap S0 depth_processor) (proc_period depth_processor)
         (process_callback (SetPlugin S0 pg) depth_processor)
         (OnDepthProcess (SetPlugin S0 pg)) (map_option plugin_OnDepthProcess pg)"
proof -
  note sh = reached_shape(2)[OF assms]
  note md = reached_modes[OF assms]
  have streams:
    "map stream (target_streams (heap S0 rectify_processor)) = [LEFT_RECTIFIED, RIGHT_RECTIFIED]"
    "map stream (target_streams (heap S0 disparity_processor)) = [DISPARITY]"
    "map stream (target_streams (heap S0 disparitynormalized_processor)) = [DISPARITY_NORMALIZED]"
    "map stream (target_streams (heap S0 points_processor)) = [POINTS]"
    "map stream (target_streams (heap S0 depth_processor)) = [DEPTH]"
    by (simp_all add: sh initial_streams del: initial_processor.simps)
  have r: "hook_follows (heap S0 rectify_processor) (proc_period rectify_processor)
         (process_callback (SetPlugin S0 pg) rectify_processor)
         (OnRectifyProcess (SetPlugin S0 pg)) (map_option plugin_OnRectifyProcess pg)"
    unfolding proc_period.simps
    by (rule hook_followsI[where mode = "GetStreamEnabledMode S0 LEFT_RECTIFIED"])
      (simp_all add: OnRectifyProcess_fst md)
  have d: "hook_follows (heap S0 disparity_processor) (proc_period disparity_processor)
         (process_callback (SetPlugin S0 pg) disparity_processor)
         (OnDisparityProcess (SetPlugin S0 pg)) (map_option plugin_OnDisparityProcess pg)"
    unfolding proc_period.simps
    by (rule hook_followsI[where mode = "GetStreamEnabledMode S0 DISPARITY"])
      (simp_all add: OnDisparityProcess_fst md)
  have n: "hook_follows (heap S0 disparitynormalized_processor)
         (proc_period disparitynormalized_processor)
         (process_callback (SetPlugin S0 pg) disparitynormalized_processor)
         (OnDisparityNormalizedProcess (SetPlugin S0 pg))
         (map_option plugin_OnDisparityNormalizedProcess pg)"
    unfolding proc_period.simps
    by (rule hook_followsI[where mode = "GetStreamEnabledMode S0 DISPARITY_NORMALIZED"])
      (simp_all add: OnDisparityNormalizedProcess_fst md)
  have p: "hook_follows (heap S0 points_processor) (proc_period points_processor)
         (process_callback (SetPlugin S0 pg) points_processor)
         (OnPointsProcess (SetPlugin S0 pg)) (map_option plugin_OnPointsProcess pg)"
    unfolding proc_period.simps
    by (rule hook_followsI[where mode = "GetStreamEnabledMode S0 POINTS"])
      (simp_all add: OnPointsProcess_fst md)
  have e: "hook_follows (heap S0 depth_processor) (proc_period depth_processor)
         (process_callback (SetPlugin S0 pg) depth_processor)
         (OnDepthProcess (SetPlugin S0 pg)) (map_option plugin_OnDepthProcess pg)"
    unfolding proc_period.simps
    by (rule hook_followsI[where mode = "GetStreamEnabledMode S0 DEPTH"])
      (simp_all add: OnDepthProcess_fst md)
  show ?thesis
    using streams r d n p e by simp
qed

text \<open>
  The rectify stage after \<open>EnableStreamData(LEFT_RECTIFIED)\<close> on a LEFT/RIGHT-only
  device: activated, LEFT_RECTIFIED enabled as SYNTHETIC. With a plugin that accepts,
  the hook is satisfied (by the plugin alone), the kernel is not invoked and the
  post-process hook fires; with a plugin that declines, the hook is not satisfied and the
  kernel is invoked.
\<close>

theorem C4_hook_reads_first_target_witness:
  "reached stereo_device PINHOLE [Enable LEFT_RECTIFIED False] = Inr rectified_pinhole
   \<and> enabled_mode (hd (target_streams (heap rectified_pinhole rectify_processor)))
       = MODE_SYNTHETIC
   \<and> IsActivated (heap rectified_pinhole rectify_processor)
   \<and> fst (OnRectifyProcess (SetPlugin rectified_pinhole (Some accepting_plugin))
            empty_object empty_object)
   \<and> \<not> kernel_invoked
         (run_one (heap rectified_pinhole rectify_processor) (proc_period rectify_processor) 0
            (process_callback (SetPlugin rectified_pinhole (Some accepting_plugin))
               rectify_processor)
            succeeding_kernel empty_object empty_object)
   \<and> post_process_fired
         (run_one (heap rectified_pinhole rectify_processor) (proc_period rectify_processor) 0
            (process_callback (SetPlugin rectified_pinhole (Some accepting_plugin))
               rectify_processor)
            succeeding_kernel empty_object empty_object)
   \<and> \<not> fst (OnRectifyProcess (SetPlugin rectified_pinhole (Some declining_plugin))
              empty_object empty_object)
   \<and> kernel_invoked
         (run_one (heap rectified_pinhole rectify_processor) (proc_period rectify_processor) 0
            (process_callback (SetPlugin rectified_pinhole (Some declining_plugin))
               rectify_processor)
            succeeding_kernel empty_object empty_object)"
proof -
  let ?P = "heap rectified_pinhole rectify_processor"
  have st: "enabled_mode (hd (target_streams ?P)) = MODE_SYNTHETIC" "IsActivated ?P"
    by (simp_all add: rectified_pinhole_def rectified_heap_def target_def IsActivated_def)
  have acc: "\<exists>h. map_option plugin_OnRectifyProcess (Some accepting_plugin) = Some h
              \<and> fst (h empty_object empty_object)"
    by (simp add: accepting_plugin_def)
  have dec: "\<not> (\<exists>h. map_option plugin_OnRectifyProcess (Some declining_plugin) = Some h
              \<and> fst (h empty_object empty_object))"
    by (simp add: declining_plugin_def)
  from C4_hook_reads_first_target[OF reached_rectified_pinhole, of "Some accepting_plugin"]
  have a: "hook_follows ?P (proc_period rectify_processor)
         (process_callback (SetPlugin rectified_pinhole (Some accepting_plugin)) rectify_processor)
         (OnRectifyProcess (SetPlugin rectified_pinhole (Some accepting_plugin)))
         (map_option plugin_OnRectifyProcess (Some accepting_plugin))"
    by blast
  from C4_hook_reads_first_target[OF reached_rectified_pinhole, of "Some declining_plugin"]
  have b: "hook_follows ?P (proc_period rectify_processor)
         (process_callback (SetPlugin rectified_pinhole (Some declining_plugin)) rectify_processor)
         (OnRectifyProcess (SetPlugin rectified_pinhole (Some declining_plugin)))
         (map_option plugin_OnRectifyProcess (Some declining_plugin))"
    by blast
  have a1: "fst (OnRectifyProcess (SetPlugin rectified_pinhole (Some accepting_plugin))
            empty_object empty_object)"
    using a acc unfolding hook_follows_def by blast
  have a2: "\<not> kernel_invoked
         (run_one ?P (proc_period rectify_processor) 0
            (process_callback (SetPlugin rectified_pinhole (Some accepting_plugin))
               rectify_processor)
            succeeding_kernel empty_object empty_object)
     \<and> post_process_fired
         (run_one ?P (proc_period rectify_processor) 0
            (process_callback (SetPlugin rectified_pinhole (Some accepting_plugin))
               rectify_processor)
            succeeding_kernel empty_object empty_object)"
    using a acc st(2) unfolding hook_follows_def by blast
  have b1: "\<not> fst (OnRectifyProcess (SetPlugin rectified_pinhole (Some declining_plugin))
              empty_object empty_object)"
    using b dec st(1) unfolding hook_follows_def by blast
  have b2: "kernel_invoked
         (run_one ?P (proc_period rectify_processor) 0
            (process_callback (SetPlugin rectified_pinhole (Some declining_plugin))
               rectify_processor)
            succeeding_kernel empty_object empty_object)"
    using run_one_fall_through[where hook = "OnRectifyProcess (SetPlugin rectified_pinhole (Some declining_plugin))"
        and inp = empty_object and out = empty_object, OF st(2) b1]
    by simp
  show ?thesis
    using reached_rectified_pinhole st a1 a2 b1 b2 by simp
qed

text \<open>
  C5. In every state reached from the constructor (which runs \<open>InitStreamSupports\<close>) by
  any sequence of \<open>EnableStreamData\<close> and \<open>DisableStreamData\<close> calls, dry-run or not,
  every target stream whose support mode is NATIVE has an enabled mode in
  \<open>{NATIVE, NONE}\<close>, never SYNTHETIC; the same holds of the modes the registry
  reports through \<open>SupportsMode\<close> and \<open>GetStreamEnabledMode\<close>.
\<close>

theorem C5_native_never_synthetic:
  assumes "reached dev m calls = Inr S"
  shows "(\<forall>p. \<forall>t \<in> set (target_streams (heap S p)).
            support_mode t = MODE_NATIVE \<longrightarrow> enabled_mode t \<in> {MODE_NATIVE, MODE_LAST})
         \<and> (\<forall>s. SupportsMode S s = MODE_NATIVE \<longrightarrow>
                GetStreamEnabledMode S s \<in> {MODE_NATIVE, MODE_LAST})"
proof -
  obtain S0 where new: "Synthetic_new dev m = Inr S0" and calls: "switches S0 calls = Inr S"
    using assms by (auto simp: reached_def split: sum.splits)
  have "\<forall>p. native_kept (heap S0 p)"
    using Synthetic_new_established(3)[OF new] by (auto simp: native_kept_def init_ok_def)
  then have kept: "\<forall>p. native_kept (heap S p)"
    using switches_preserves[where R = native_kept, OF _ _ calls]
      native_kept_enable native_kept_disable by blast
  have api: "GetStreamEnabledMode S s \<in> {MODE_NATIVE, MODE_LAST}"
    if "SupportsMode S s = MODE_NATIVE" for s
  proof (cases "find_control (heap S) (processors S) s")
    case None
    then show ?thesis
      by (simp add: GetStreamEnabledMode_def checkControlDateWithStream_def check_control_find)
  next
    case (Some c)
    then obtain p where "c \<in> set (target_streams (heap S p))"
      using find_control_member by blast
    moreover have "support_mode c = MODE_NATIVE"
      using that Some
      by (simp add: SupportsMode_def checkControlDateWithStream_def check_control_find
          getControlDateWithStream_def)
    ultimately have "enabled_mode c = MODE_NATIVE"
      using kept by (auto simp: native_kept_def)
    then show ?thesis
      using Some
      by (simp add: GetStreamEnabledMode_def checkControlDateWithStream_def check_control_find
          getControlDateWithStream_def)
  qed
  show ?thesis
    using kept api by (auto simp: native_kept_def)
qed

text \<open>
  A device that delivers DISPARITY natively: after \<open>DisableStreamData(DISPARITY)\<close> and
  \<open>EnableStreamData(DEPTH)\<close> the DISPARITY target is still NATIVE/NATIVE, while DEPTH has
  become SYNTHETIC.
\<close>

theorem C5_native_never_synthetic_witness:
  "stage_of (reached disparity_device PINHOLE [Disable DISPARITY False, Enable DEPTH False])
     disparity_processor
     = Inr \<lparr>target_streams = [target DISPARITY MODE_NATIVE MODE_NATIVE],
            activated = False, last_output = None\<rparr>
   \<and> stage_of (reached disparity_device PINHOLE [Disable DISPARITY False, Enable DEPTH False])
     depth_processor
     = Inr \<lparr>target_streams = [target DEPTH MODE_SYNTHETIC MODE_SYNTHETIC],
            activated = True, last_output = None\<rparr>
   \<and> support_mode (target DISPARITY MODE_NATIVE MODE_NATIVE) = MODE_NATIVE
   \<and> enabled_mode (target DISPARITY MODE_NATIVE MODE_NATIVE) \<in> {MODE_NATIVE, MODE_LAST}"
proof -
  let ?r = "reached disparity_device PINHOLE [Disable DISPARITY False, Enable DEPTH False]"
  let ?D = "\<lparr>target_streams = [target DISPARITY MODE_NATIVE MODE_NATIVE],
            activated = False, last_output = None\<rparr>"
  have d: "stage_of ?r disparity_processor = Inr ?D"
    by (simp add: construct_defs switch_defs disparity_device_def)
  have n: "stage_of ?r depth_processor
     = Inr \<lparr>target_streams = [target DEPTH MODE_SYNTHETIC MODE_SYNTHETIC],
            activated = True, last_output = None\<rparr>"
    by (simp add: construct_defs switch_defs disparity_device_def)
  from d obtain S where S: "?r = Inr S" "heap S disparity_processor = ?D"
    using stage_of_Inr by blast
  from C5_native_never_synthetic[OF S(1)]
  have "\<forall>t \<in> set (target_streams (heap S disparity_processor)).
          support_mode t = MODE_NATIVE \<longrightarrow> enabled_mode t \<in> {MODE_NATIVE, MODE_LAST}"
    by blast
  with S(2) d n show ?thesis by (simp add: target_def)
qed



text \<open>
  C7 (what the code does). For a stream \<open>s\<close> that no processor registers:
  \<open>GetStreamData(s)\<close> returns the empty StreamData and \<open>HasStreamCallback(s)\<close> is
  false (\<open>Supports(s)\<close> is false by assumption); but \<open>EnableStreamData(s)\<close> and
  \<open>DisableStreamData(s)\<close> do not return a state: \<^verbatim>\<open>getProcessorWithStream\<close> logs the
  error and flows off its end without a return value, and the caller goes on to traverse
  from that missing processor.
\<close>

theorem C7_unknown_stream:
  assumes "\<not> Supports S s"
  shows "GetStreamData S s = Inr (StreamData_empty, S)
         \<and> \<not> HasStreamCallback S s
         \<and> EnableStreamData S s try_tag = Inl (NoSuitedProcessor s)
         \<and> DisableStreamData S s try_tag = Inl (NoSuitedProcessor s)"
proof -
  have "getProcessorWithStream S s = Inl (NoSuitedProcessor s)"
    using assms by (auto simp: Supports_owner getProcessorWithStream_def split: option.splits)
  moreover have "GetStreamEnabledMode S s = MODE_LAST"
    using assms by (simp add: GetStreamEnabledMode_def Supports_def)
  ultimately show ?thesis
    using assms
    by (simp add: GetStreamData_def HasStreamCallback_def Supports_def EnableStreamData_def
        DisableStreamData_def)
qed

text \<open>The stream \<open>LAST\<close> on the pipeline of a LEFT/RIGHT-only device.\<close>

theorem C7_unknown_stream_witness:
  "Supports stereo_pinhole LAST = False
   \<and> GetStreamData stereo_pinhole LAST = Inr (StreamData_empty, stereo_pinhole)
   \<and> HasStreamCallback stereo_pinhole LAST = False
   \<and> EnableStreamData stereo_pinhole LAST False = Inl (NoSuitedProcessor LAST)"
proof -
  have h: "\<not> Supports stereo_pinhole LAST"
    by (simp add: read_defs)
  from C7_unknown_stream[OF h, of False] h show ?thesis by simp
qed

text \<open>
  C8. For every state and every stream: when a non-dry-run \<open>EnableStreamData(s)\<close>
  returns, a second \<open>EnableStreamData(s)\<close> returns the very same state (every enabled
  mode and every activation flag) and invokes the switch callback for no stream.
\<close>

theorem C8_enable_twice:
  assumes "EnableStreamData S s False = Inr (S1, called)"
  shows "EnableStreamData S1 s False = Inr (S1, [])"
proof -
  obtain p where p: "getProcessorWithStream S s = Inr p"
    using assms by (auto simp: EnableStreamData_def split: sum.splits)
  let ?ps = "iterate_processor_CtoP_before (calib_model S) p"
  let ?h = "fst (visit (enable_proce False) ?ps (heap S))"
  have S1: "S1 = S\<lparr>heap := ?h\<rparr>"
    using assms p by (auto simp: EnableStreamData_def split: prod.splits)
  have "getProcessorWithStream S1 s = getProcessorWithStream S s"
    by (rule getProcessorWithStream_cong) (simp_all add: S1 visit_streams enable_proce_streams)
  moreover have "visit (enable_proce False) ?ps ?h = (?h, [])"
    by (rule visit_twice) (rule enable_proce_twice)
  ultimately show ?thesis
    using p by (simp add: EnableStreamData_def S1)
qed

text \<open>
  Enabling LEFT_RECTIFIED on the freshly constructed pipeline of a LEFT/RIGHT-only
  device, twice.
\<close>

theorem C8_enable_twice_witness:
  "EnableStreamData stereo_pinhole LEFT_RECTIFIED False
     = Inr (rectified_pinhole, [LEFT_RECTIFIED, RIGHT_RECTIFIED])
   \<and> EnableStreamData rectified_pinhole LEFT_RECTIFIED False = Inr (rectified_pinhole, [])"
  using C8_enable_twice[OF Enable_stereo_pinhole] Enable_stereo_pinhole by simp

text \<open>
  C9. For every state, every stream \<open>s\<close> and every callback \<open>f\<close>: after
  \<open>SetStreamCallback(s, f)\<close> followed by \<open>SetStreamCallback(s, nullptr)\<close>,
  \<open>HasStreamCallback(s)\<close> is false. For a registered stream the first call does set the
  callback (\<open>HasStreamCallback\<close> is true in between), so the second call is what clears it.
\<close>

theorem C9_set_then_clear_callback:
  "HasStreamCallback (SetStreamCallback (SetStreamCallback S s (Some f)) s None) s = False
   \<and> HasStreamCallback (SetStreamCallback S s (Some f)) s = Supports S s"
  by (simp add: HasStreamCallback_after_set)

text \<open>
  C10. When no plugin is set, or the plugin's rectify handler returns false, the
  rectify hook returns false (the stage falls through to its built-in rectification) if
  and only if the enabled mode of LEFT_RECTIFIED is SYNTHETIC; two states with the same
  plugin and the same enabled mode of LEFT_RECTIFIED get the same answer, whatever the
  mode of RIGHT_RECTIFIED.
\<close>

theorem C10_rectify_reads_left_only:
  assumes "plugin S = None \<or> (\<exists>pl. plugin S = Some pl \<and> \<not> fst (plugin_OnRectifyProcess pl inp out))"
  shows "(\<not> fst (OnRectifyProcess S inp out)
            \<longleftrightarrow> GetStreamEnabledMode S LEFT_RECTIFIED = MODE_SYNTHETIC)
       \<and> (\<forall>S'. plugin S' = plugin S
              \<and> GetStreamEnabledMode S' LEFT_RECTIFIED = GetStreamEnabledMode S LEFT_RECTIFIED
              \<longrightarrow> fst (OnRectifyProcess S' inp out) = fst (OnRectifyProcess S inp out))"
  using assms
  by (auto simp: OnRectifyProcess_fst)

text \<open>
  With LEFT_RECTIFIED delivered by the device and RIGHT_RECTIFIED enabled as SYNTHETIC,
  the hook returns true: the built-in rectification is skipped although
  RIGHT_RECTIFIED is synthetic. With LEFT_RECTIFIED enabled as SYNTHETIC and a plugin
  that declines, the hook returns false.
\<close>

theorem C10_rectify_reads_left_only_witness:
  "reached mixed_device PINHOLE [Enable RIGHT_RECTIFIED False] = Inr mixed_pinhole
   \<and> GetStreamEnabledMode mixed_pinhole RIGHT_RECTIFIED = MODE_SYNTHETIC
   \<and> GetStreamEnabledMode mixed_pinhole LEFT_RECTIFIED = MODE_NATIVE
   \<and> fst (OnRectifyProcess mixed_pinhole empty_object empty_object)
   \<and> GetStreamEnabledMode rectified_pinhole LEFT_RECTIFIED = MODE_SYNTHETIC
   \<and> \<not> fst (OnRectifyProcess (rectified_pinhole\<lparr>plugin := Some declining_plugin\<rparr>)
              empty_object empty_object)"
proof -
  have m: "GetStreamEnabledMode mixed_pinhole RIGHT_RECTIFIED = MODE_SYNTHETIC"
    "GetStreamEnabledMode mixed_pinhole LEFT_RECTIFIED = MODE_NATIVE"
    "plugin mixed_pinhole = None"
    by (simp_all add: mode_defs)
  have r: "GetStreamEnabledMode rectified_pinhole LEFT_RECTIFIED = MODE_SYNTHETIC"
    "GetStreamEnabledMode (rectified_pinhole\<lparr>plugin := Some declining_plugin\<rparr>) LEFT_RECTIFIED
       = MODE_SYNTHETIC"
    by (simp_all add: mode_defs)
  have d: "plugin (rectified_pinhole\<lparr>plugin := Some declining_plugin\<rparr>) = None
       \<or> (\<exists>pl. plugin (rectified_pinhole\<lparr>plugin := Some declining_plugin\<rparr>) = Some pl
              \<and> \<not> fst (plugin_OnRectifyProcess pl empty_object empty_object))"
    by (simp add: declining_plugin_def)
  have n: "plugin mixed_pinhole = None
       \<or> (\<exists>pl. plugin mixed_pinhole = Some pl
              \<and> \<not> fst (plugin_OnRectifyProcess pl empty_object empty_object))"
    using m(3) by simp
  from C10_rectify_reads_left_only[OF n] C10_rectify_reads_left_only[OF d] m r
    reached_mixed_pinhole
  show ?thesis by simp
qed

end
